theory Spec2Isabelle
  imports Complex_Main "HOL-Library.Sublist"
begin

section \<open>Python values, exceptions and effects\<close>

text \<open>
  The analyzer (\<^verbatim>\<open>analyzer/handler.py\<close>) and the metadata module
  (\<^verbatim>\<open>app/db_dynamo.py\<close>) are Python. Values that travel through them untyped
  (the invocation event, DynamoDB items, the analysis dictionary) are modelled by one
  datatype of Python values. Dictionaries are association lists in insertion order;
  their keys are values, as in Python. A \<open>PDecimal s\<close> is \<^verbatim>\<open>Decimal(s)\<close>, the
  decimal built from the text \<open>s\<close>. Floats are modelled by real numbers, so NaN and
  the infinities are outside the model.
\<close>

datatype pyval =
    PNone
  | PBool bool
  | PInt int
  | PFloat real
  | PStr string
  | PDecimal string
  | PList "pyval list"
  | PTuple "pyval list"
  | PSet "pyval list"
  | PDict "(pyval \<times> pyval) list"

text \<open>
  An exception carries what the code looks at: whether it is a botocore
  \<^verbatim>\<open>ClientError\<close> (the only class \<^verbatim>\<open>db_dynamo.py\<close> catches) and its
  \<^verbatim>\<open>str(e)\<close>. Exceptions are instances of Python's \<^verbatim>\<open>Exception\<close>, the class
  every \<^verbatim>\<open>except Exception\<close> of the analyzer catches.
\<close>

datatype exn = Exn (is_ClientError: bool) (exn_str: string)

text \<open>Truthiness, as \<^verbatim>\<open>if x:\<close> and \<^verbatim>\<open>not x\<close> read a value.\<close>

definition decimal_truthy :: "string \<Rightarrow> bool" where
  "decimal_truthy s =
     list_ex (\<lambda>c. c \<notin> set ''+-0._'')
       (takeWhile (\<lambda>c. c \<noteq> CHR ''e'' \<and> c \<noteq> CHR ''E'') s)"

fun truthy :: "pyval \<Rightarrow> bool" where
  "truthy PNone = False"
| "truthy (PBool b) = b"
| "truthy (PInt i) = (i \<noteq> 0)"
| "truthy (PFloat x) = (x \<noteq> 0)"
| "truthy (PStr s) = (s \<noteq> [])"
| "truthy (PDecimal s) = decimal_truthy s"
| "truthy (PList xs) = (xs \<noteq> [])"
| "truthy (PTuple xs) = (xs \<noteq> [])"
| "truthy (PSet xs) = (xs \<noteq> [])"
| "truthy (PDict kvs) = (kvs \<noteq> [])"

fun type_name :: "pyval \<Rightarrow> string" where
  "type_name PNone = ''NoneType''"
| "type_name (PBool b) = ''bool''"
| "type_name (PInt i) = ''int''"
| "type_name (PFloat x) = ''float''"
| "type_name (PStr s) = ''str''"
| "type_name (PDecimal s) = ''decimal.Decimal''"
| "type_name (PList xs) = ''list''"
| "type_name (PTuple xs) = ''tuple''"
| "type_name (PSet xs) = ''set''"
| "type_name (PDict kvs) = ''dict''"

text \<open>
  \<^verbatim>\<open>d.get(k)\<close> on a dictionary with string keys (the event, a response):
  the value, or \<^verbatim>\<open>None\<close> when the key is absent.
\<close>

definition dict_get :: "(string \<rightharpoonup> pyval) \<Rightarrow> string \<Rightarrow> pyval" where
  "dict_get d k = (case d k of None \<Rightarrow> PNone | Some v \<Rightarrow> v)"

subsection \<open>Requests sent to the collaborators\<close>

record put_object_req =
  Bucket :: pyval
  Key :: string
  Body :: string
  ContentType :: string

record update_item_req =
  upd_Key :: "(string \<times> pyval) list"
  UpdateExpression :: string
  ExpressionAttributeNames :: "(string \<times> string) list"
  ExpressionAttributeValues :: "(string \<times> pyval) list"
  ReturnValues :: "string option"

record load_req =
  load_path :: string
  load_sr :: "int option"
  load_mono :: bool
  load_duration :: real
  load_res_type :: "string option"

datatype t_alt = TScalar real | TArray "real list"

record datetime =
  year :: nat
  month :: nat
  day :: nat
  hour :: nat
  minute :: nat
  second :: nat
  microsecond :: nat

text \<open>
  Every call to a collaborator (object storage, the metadata table, the scratch file,
  the audio libraries) is recorded, in order, in a log that the model returns next to
  the result. Reading the clock and formatting values are not logged.
\<close>

datatype call =
    Call_NamedTemporaryFile string
  | Call_tmp_close string
  | Call_download_file pyval string string
  | Call_put_object put_object_req
  | Call_update_item update_item_req
  | Call_put_item pyval
  | Call_MutagenMP3 string
  | Call_sf_info string
  | Call_import_librosa
  | Call_get_duration string
  | Call_load load_req
  | Call_beat_track "real list" int
  | Call_beat_tempo "real list" int string
  | Call_import_numpy

datatype import_site = Import_tier3 | Import_tier4 | Import_tempo

datatype clock_site =
    Clock_t0 | Clock_download_end | Clock_t1 | Clock_duration_end | Clock_t2
  | Clock_tempo_end | Clock_tempo_start | Clock_tempo_stop

text \<open>
  The collaborators are a record of outcome functions: for each call site, what the
  call returns or raises, as a function of its arguments. No call site of the program
  sits in a loop, so each runs at most once per invocation, and a record with one
  outcome function per call site describes every behaviour the outside world can show
  one run. The two attempts of the metadata update take the attempt number; the three
  imports of librosa and the readings of the clock take their site.
\<close>

record env =
  NamedTemporaryFile :: "string \<Rightarrow> exn + string"
  tmp_close :: "string \<Rightarrow> exn option"
  download_file :: "pyval \<Rightarrow> string \<Rightarrow> string \<Rightarrow> exn option"
  put_object :: "put_object_req \<Rightarrow> exn option"
  update_item :: "nat \<Rightarrow> update_item_req \<Rightarrow> exn + (string \<rightharpoonup> pyval)"
  put_item :: "pyval \<Rightarrow> exn option"
  MutagenMP3_length :: "string \<Rightarrow> exn + real"
  sf_info_duration :: "string \<Rightarrow> exn + real option"
  import_librosa :: "import_site \<Rightarrow> exn option"
  get_duration :: "string \<Rightarrow> exn + real"
  load :: "load_req \<Rightarrow> exn + (real list option \<times> int option)"
  beat_track :: "real list \<Rightarrow> int \<Rightarrow> exn + (real \<times> nat list option)"
  beat_tempo :: "real list \<Rightarrow> int \<Rightarrow> string \<Rightarrow> exn + t_alt"
  import_numpy :: "exn option"
  np_mean :: "real list \<Rightarrow> real"
  time :: "clock_site \<Rightarrow> real"
  utc_now :: datetime
  uuid4 :: string
  float_str :: "real \<Rightarrow> string"
  json_dumps :: "pyval \<Rightarrow> string"

text \<open>
  A computation returns a value or raises (\<open>Inl\<close>), and has logged calls either way.
\<close>

type_synonym 'a comp = "(exn + 'a) \<times> call list"

definition bind :: "'a comp \<Rightarrow> ('a \<Rightarrow> 'b comp) \<Rightarrow> 'b comp" where
  "bind m f =
     (case m of
        (Inl e, l) \<Rightarrow> (Inl e, l)
      | (Inr x, l) \<Rightarrow> (case f x of (r, l') \<Rightarrow> (r, l @ l')))"

text \<open>\<^verbatim>\<open>try: m except Exception as e: h(e)\<close>.\<close>

definition try_except :: "'a comp \<Rightarrow> (exn \<Rightarrow> 'a comp) \<Rightarrow> 'a comp" where
  "try_except m h =
     (case m of
        (Inl e, l) \<Rightarrow> (case h e of (r, l') \<Rightarrow> (r, l @ l'))
      | (Inr x, l) \<Rightarrow> (Inr x, l))"

text \<open>A call that returns nothing, and a call that returns a value.\<close>

definition call_unit :: "call \<Rightarrow> exn option \<Rightarrow> unit comp" where
  "call_unit c out = (case out of Some e \<Rightarrow> (Inl e, [c]) | None \<Rightarrow> (Inr (), [c]))"

definition call_val :: "call \<Rightarrow> exn + 'a \<Rightarrow> 'a comp" where
  "call_val c out = (out, [c])"

section \<open>The metadata module: \<^verbatim>\<open>app/db_dynamo.py\<close>\<close>

text \<open>
  \<^verbatim>\<open>_clean_ddb\<close> (lines 16 to 29): a float becomes \<^verbatim>\<open>Decimal(str(value))\<close>;
  a dict, a list and a tuple are rebuilt with their values and elements cleaned (the
  keys of a dict are kept as they are); every other value is returned unchanged.
\<close>

fun clean_ddb :: "(real \<Rightarrow> string) \<Rightarrow> pyval \<Rightarrow> pyval" where
  "clean_ddb fs (PFloat x) = PDecimal (fs x)"
| "clean_ddb fs (PDict kvs) = PDict (map (\<lambda>kv. (fst kv, clean_ddb fs (snd kv))) kvs)"
| "clean_ddb fs (PList xs) = PList (map (clean_ddb fs) xs)"
| "clean_ddb fs (PTuple xs) = PTuple (map (clean_ddb fs) xs)"
| "clean_ddb fs v = v"

text \<open>\<^verbatim>\<open>sep.join(parts)\<close>.\<close>

fun join :: "string \<Rightarrow> string list \<Rightarrow> string" where
  "join sep [] = []"
| "join sep [x] = x"
| "join sep (x # y # ys) = x @ sep @ join sep (y # ys)"

definition error_dict :: "string \<Rightarrow> pyval" where
  "error_dict msg = PDict [(PStr ''error'', PStr msg)]"

text \<open>
  \<^verbatim>\<open>save_metadata\<close> (lines 32 to 65). The annotated parameters \<^verbatim>\<open>filename\<close>,
  \<^verbatim>\<open>s3_key\<close> and \<^verbatim>\<open>file_id\<close> are strings; \<^verbatim>\<open>duration\<close> and \<^verbatim>\<open>tempo\<close> are
  tested with \<^verbatim>\<open>is None\<close> and \<^verbatim>\<open>isinstance(_, float)\<close>, so they are values.
  The item (\<open>new_item\<close>, lines 40 to 57) has no \<^verbatim>\<open>analyzed_at\<close> key. Only a
  \<^verbatim>\<open>ClientError\<close> of \<^verbatim>\<open>put_item\<close> is caught (the function then returns
  \<^verbatim>\<open>None\<close>); any other exception propagates.
\<close>

definition decimal_or_keep :: "(real \<Rightarrow> string) \<Rightarrow> pyval \<Rightarrow> pyval" where
  "decimal_or_keep fs v =
     (case v of
        PNone \<Rightarrow> PDecimal ''0''
      | PFloat x \<Rightarrow> PDecimal (fs x)
      | _ \<Rightarrow> v)"

definition new_item ::
  "env \<Rightarrow> string \<Rightarrow> string \<Rightarrow> pyval \<Rightarrow> pyval \<Rightarrow> string option \<Rightarrow> pyval" where
  "new_item env filename s3_key duration tempo file_id =
     (let fid = (case file_id of
                   None \<Rightarrow> uuid4 env
                 | Some f \<Rightarrow> if f \<noteq> [] then f else uuid4 env)
      in PDict
           [(PStr ''file_id'', PStr fid),
            (PStr ''filename'', PStr filename),
            (PStr ''s3_key'', PStr s3_key),
            (PStr ''duration'', decimal_or_keep (float_str env) duration),
            (PStr ''tempo'', decimal_or_keep (float_str env) tempo)])"

definition save_metadata ::
  "env \<Rightarrow> string \<Rightarrow> string \<Rightarrow> pyval \<Rightarrow> pyval \<Rightarrow> string option \<Rightarrow> pyval comp" where
  "save_metadata env filename s3_key duration tempo file_id =
     (let item = clean_ddb (float_str env) (new_item env filename s3_key duration tempo file_id)
      in case put_item env item of
           None \<Rightarrow> (Inr item, [Call_put_item item])
         | Some e \<Rightarrow>
             if is_ClientError e then (Inr PNone, [Call_put_item item])
             else (Inl e, [Call_put_item item]))"

text \<open>
  \<^verbatim>\<open>update_metadata\<close> (lines 68 to 97). The keyword arguments \<^verbatim>\<open>**fields\<close> are
  the association list \<open>kwfields\<close>, with string keys. The key
  \<^verbatim>\<open>{"file_id": file_id}\<close> is sent as given; the field values are cleaned. Only a
  \<^verbatim>\<open>ClientError\<close> is caught.
\<close>

definition update_metadata :: "env \<Rightarrow> string \<Rightarrow> (string \<times> pyval) list \<Rightarrow> pyval comp" where
  "update_metadata env file_id kwfields =
     (if file_id = [] \<or> kwfields = [] then
        (Inr (error_dict ''Missing file_id or update fields''), [])
      else
        let cleaned_fields = map (\<lambda>kv. (fst kv, clean_ddb (float_str env) (snd kv))) kwfields;
            names = map (\<lambda>kv. (''#'' @ fst kv, fst kv)) cleaned_fields;
            update_expr =
              ''SET '' @ join '', '' (map (\<lambda>kv. ''#'' @ fst kv @ '' = :'' @ fst kv) cleaned_fields);
            expr_values = map (\<lambda>kv. ('':'' @ fst kv, snd kv)) cleaned_fields;
            req = \<lparr>upd_Key = [(''file_id'', PStr file_id)],
                   UpdateExpression = update_expr,
                   ExpressionAttributeNames = names,
                   ExpressionAttributeValues = expr_values,
                   ReturnValues = Some ''UPDATED_NEW''\<rparr>
        in case update_item env 0 req of
             Inr resp \<Rightarrow>
               (Inr (case resp ''Attributes'' of None \<Rightarrow> PDict [] | Some a \<Rightarrow> a),
                [Call_update_item req])
           | Inl e \<Rightarrow>
               if is_ClientError e then (Inr (error_dict (exn_str e)), [Call_update_item req])
               else (Inl e, [Call_update_item req]))"

subsection \<open>Positions inside a value\<close>

text \<open>
  A position is a path of steps from the root: into the element of a list or tuple at
  an index, or into the value a dict holds under a key. These are the positions
  \<^verbatim>\<open>_clean_ddb\<close> visits. The members of a set and the keys of a dict are not
  positions: no step leads into them.
\<close>

datatype step = Elem nat | Val pyval

fun child :: "pyval \<Rightarrow> step \<Rightarrow> pyval option" where
  "child (PList xs) (Elem i) = (if i < length xs then Some (xs ! i) else None)"
| "child (PTuple xs) (Elem i) = (if i < length xs then Some (xs ! i) else None)"
| "child (PDict kvs) (Val k) = map_of kvs k"
| "child v s = None"

fun at_path :: "pyval \<Rightarrow> step list \<Rightarrow> pyval option" where
  "at_path v [] = Some v"
| "at_path v (s # p) = (case child v s of None \<Rightarrow> None | Some c \<Rightarrow> at_path c p)"

fun is_container :: "pyval \<Rightarrow> bool" where
  "is_container (PList xs) = True"
| "is_container (PTuple xs) = True"
| "is_container (PDict kvs) = True"
| "is_container v = False"

fun is_float :: "pyval \<Rightarrow> bool" where
  "is_float (PFloat x) = True"
| "is_float v = False"

text \<open>
  The container structure of a value: the value with every leaf position blanked. Dict
  keys, list and tuple lengths and the nesting are kept.
\<close>

fun skeleton :: "pyval \<Rightarrow> pyval" where
  "skeleton (PDict kvs) = PDict (map (\<lambda>kv. (fst kv, skeleton (snd kv))) kvs)"
| "skeleton (PList xs) = PList (map skeleton xs)"
| "skeleton (PTuple xs) = PTuple (map skeleton xs)"
| "skeleton v = PNone"

section \<open>Library functions the analyzer calls\<close>

text \<open>
  \<^verbatim>\<open>str.lower\<close> on ASCII letters; bytes outside ASCII are left as they are.
\<close>

definition lower_char :: "char \<Rightarrow> char" where
  "lower_char c =
     (case map_of (zip ''ABCDEFGHIJKLMNOPQRSTUVWXYZ'' ''abcdefghijklmnopqrstuvwxyz'') c of
        Some d \<Rightarrow> d
      | None \<Rightarrow> c)"

definition lower :: "string \<Rightarrow> string" where
  "lower s = map lower_char s"

text \<open>
  \<^verbatim>\<open>str.rfind(c)\<close> for one character: the index of its last occurrence, or -1.
\<close>

definition rfind :: "string \<Rightarrow> char \<Rightarrow> int" where
  "rfind p c =
     (if c \<in> set p then int (length p) - 1 - int (length (takeWhile (\<lambda>d. d \<noteq> c) (rev p)))
      else - 1)"

text \<open>
  \<^verbatim>\<open>os.path.basename\<close> and \<^verbatim>\<open>os.path.splitext\<close> of \<^verbatim>\<open>posixpath\<close>. In
  \<^verbatim>\<open>splitext\<close> the extension starts at the last dot, provided that dot comes after
  the last slash and some character between the slash and the dot is not a dot (the
  library's loop over \<^verbatim>\<open>filenameIndex\<close> returns at the first such character).
\<close>

definition basename :: "string \<Rightarrow> string" where
  "basename p = drop (nat (rfind p CHR ''/'' + 1)) p"

definition splitext :: "string \<Rightarrow> string \<times> string" where
  "splitext p =
     (let sepIndex = rfind p CHR ''/'';
          dotIndex = rfind p CHR ''.''
      in if dotIndex > sepIndex \<and>
            list_ex (\<lambda>c. c \<noteq> CHR ''.'')
              (take (nat (dotIndex - (sepIndex + 1))) (drop (nat (sepIndex + 1)) p))
         then (take (nat dotIndex) p, drop (nat dotIndex) p)
         else (p, []))"

text \<open>\<^verbatim>\<open>needle in haystack\<close> on strings.\<close>

fun is_substring :: "string \<Rightarrow> string \<Rightarrow> bool" where
  "is_substring needle [] = (needle = [])"
| "is_substring needle (c # cs) = (prefix needle (c # cs) \<or> is_substring needle cs)"

text \<open>
  \<^verbatim>\<open>str.replace(old, new)\<close> for a non-empty \<^verbatim>\<open>old\<close>: the occurrences are replaced
  from the left, without overlap.
\<close>

function py_replace :: "string \<Rightarrow> string \<Rightarrow> string \<Rightarrow> string" where
  "py_replace [] old new = []"
| "py_replace (c # cs) old new =
     (if old \<noteq> [] \<and> prefix old (c # cs)
      then new @ py_replace (drop (length old) (c # cs)) old new
      else c # py_replace cs old new)"
  by pat_completeness auto
termination
  by (relation "measure (\<lambda>(s, old, new). length s)") (auto simp: neq_Nil_conv)

text \<open>
  \<^verbatim>\<open>datetime.isoformat()\<close> of an aware datetime in UTC:
  \<^verbatim>\<open>YYYY-MM-DDTHH:MM:SS\<close>, then \<^verbatim>\<open>.ffffff\<close> when the microsecond is not zero,
  then the offset \<^verbatim>\<open>+00:00\<close>. The fields of a datetime are within their ranges
  (the year has at most four digits), so each is printed at its fixed width.
\<close>

definition digit_char :: "nat \<Rightarrow> char" where
  "digit_char d = ''0123456789'' ! (d mod 10)"

text \<open>\<^verbatim>\<open>%02d\<close>, \<^verbatim>\<open>%04d\<close> and \<^verbatim>\<open>%06d\<close>.\<close>

definition digits2 :: "nat \<Rightarrow> string" where
  "digits2 k = [digit_char (k div 10), digit_char k]"

definition digits4 :: "nat \<Rightarrow> string" where
  "digits4 k =
     [digit_char (k div 1000), digit_char (k div 100), digit_char (k div 10), digit_char k]"

definition digits6 :: "nat \<Rightarrow> string" where
  "digits6 k =
     [digit_char (k div 100000), digit_char (k div 10000), digit_char (k div 1000),
      digit_char (k div 100), digit_char (k div 10), digit_char k]"

definition isoformat_naive :: "datetime \<Rightarrow> string" where
  "isoformat_naive dt =
     digits4 (year dt) @ ''-'' @ digits2 (month dt) @ ''-'' @ digits2 (day dt) @ ''T'' @
     digits2 (hour dt) @ '':'' @ digits2 (minute dt) @ '':'' @ digits2 (second dt) @
     (if microsecond dt \<noteq> 0 then ''.'' @ digits6 (microsecond dt) else [])"

definition isoformat :: "datetime \<Rightarrow> string" where
  "isoformat dt = isoformat_naive dt @ ''+00:00''"

section \<open>The analyzer: \<^verbatim>\<open>analyzer/handler.py\<close>\<close>

text \<open>The module's configuration, read from the process environment at import.\<close>

record config =
  OUT_PREFIX :: string
  ENABLE_TEMPO :: bool
  TEMPO_MAX_SECONDS :: real
  TEMPO_SR :: int

subsection \<open>\<^verbatim>\<open>_fast_duration\<close> (lines 31 to 66)\<close>

text \<open>
  Each of the four \<^verbatim>\<open>try\<close> blocks is one definition. It yields \<open>Some\<close> of the pair
  the block returns, or \<open>None\<close> when control falls through to the next block (the
  block was skipped, its condition failed, or it raised and the exception was
  swallowed), together with the calls the block made.
\<close>

definition try_mutagen :: "env \<Rightarrow> string \<Rightarrow> string \<Rightarrow> (real \<times> string) option \<times> call list" where
  "try_mutagen env path ext =
     (if ext = ''.mp3'' then
        (case MutagenMP3_length env path of
           Inr d \<Rightarrow> (Some (d, ''mutagen''), [Call_MutagenMP3 path])
         | Inl e \<Rightarrow> (None, [Call_MutagenMP3 path]))
      else (None, []))"

definition try_sf_info :: "env \<Rightarrow> string \<Rightarrow> (real \<times> string) option \<times> call list" where
  "try_sf_info env path =
     (case sf_info_duration env path of
        Inr (Some d) \<Rightarrow>
          if d > 0 then (Some (d, ''soundfile.info''), [Call_sf_info path])
          else (None, [Call_sf_info path])
      | Inr None \<Rightarrow> (None, [Call_sf_info path])
      | Inl e \<Rightarrow> (None, [Call_sf_info path]))"

definition try_get_duration :: "env \<Rightarrow> string \<Rightarrow> (real \<times> string) option \<times> call list" where
  "try_get_duration env path =
     (case import_librosa env Import_tier3 of
        Some e \<Rightarrow> (None, [Call_import_librosa])
      | None \<Rightarrow>
          (case get_duration env path of
             Inl e \<Rightarrow> (None, [Call_import_librosa, Call_get_duration path])
           | Inr d \<Rightarrow>
               if d > 0
               then (Some (d, ''librosa.get_duration''), [Call_import_librosa, Call_get_duration path])
               else (None, [Call_import_librosa, Call_get_duration path])))"

definition partial_load_req :: "string \<Rightarrow> load_req" where
  "partial_load_req path =
     \<lparr>load_path = path, load_sr = None, load_mono = True, load_duration = 5,
      load_res_type = None\<rparr>"

text \<open>
  In \<^verbatim>\<open>if sr and len(y) > 0\<close> a missing or zero \<^verbatim>\<open>sr\<close> ends the test before
  \<^verbatim>\<open>len(y)\<close> is evaluated; \<^verbatim>\<open>len(None)\<close> raises and the block swallows it.
\<close>

definition try_partial :: "env \<Rightarrow> string \<Rightarrow> (real \<times> string) option \<times> call list" where
  "try_partial env path =
     (case import_librosa env Import_tier4 of
        Some e \<Rightarrow> (None, [Call_import_librosa])
      | None \<Rightarrow>
          (case load env (partial_load_req path) of
             Inl e \<Rightarrow> (None, [Call_import_librosa, Call_load (partial_load_req path)])
           | Inr (y, sr) \<Rightarrow>
               (case (sr, y) of
                  (Some r, Some ys) \<Rightarrow>
                    if r \<noteq> 0 \<and> length ys > 0
                    then (Some (real (length ys) / real_of_int r, ''librosa.partial''),
                          [Call_import_librosa, Call_load (partial_load_req path)])
                    else (None, [Call_import_librosa, Call_load (partial_load_req path)])
                | _ \<Rightarrow> (None, [Call_import_librosa, Call_load (partial_load_req path)]))))"

definition fast_duration :: "env \<Rightarrow> string \<Rightarrow> string \<Rightarrow> (real \<times> string) comp" where
  "fast_duration env path ext0 =
     (let ext = lower ext0 in
      case try_mutagen env path ext of
        (Some r, l1) \<Rightarrow> (Inr r, l1)
      | (None, l1) \<Rightarrow>
      (case try_sf_info env path of
        (Some r, l2) \<Rightarrow> (Inr r, l1 @ l2)
      | (None, l2) \<Rightarrow>
      (case try_get_duration env path of
        (Some r, l3) \<Rightarrow> (Inr r, l1 @ l2 @ l3)
      | (None, l3) \<Rightarrow>
      (case try_partial env path of
        (Some r, l4) \<Rightarrow> (Inr r, l1 @ l2 @ l3 @ l4)
      | (None, l4) \<Rightarrow> (Inr (0, ''unknown''), l1 @ l2 @ l3 @ l4)))))"

subsection \<open>\<^verbatim>\<open>_bounded_tempo\<close> (lines 69 to 113)\<close>

definition tempo_load_req :: "config \<Rightarrow> string \<Rightarrow> load_req" where
  "tempo_load_req cfg path =
     \<lparr>load_path = path, load_sr = Some (TEMPO_SR cfg), load_mono = True,
      load_duration = TEMPO_MAX_SECONDS cfg, load_res_type = Some ''kaiser_fast''\<rparr>"

text \<open>
  The inner \<^verbatim>\<open>try\<close> (lines 90 to 101): the onset-based estimate replaces \<^verbatim>\<open>tempo\<close>;
  when anything in it raises, the message is printed and \<^verbatim>\<open>tempo\<close> keeps the beat
  tracker's value. It never raises.
\<close>

definition tempo_fallback :: "env \<Rightarrow> real list \<Rightarrow> int \<Rightarrow> real \<Rightarrow> real \<times> call list" where
  "tempo_fallback env y sr tempo =
     (case beat_tempo env y sr ''mean'' of
        Inl e \<Rightarrow> (tempo, [Call_beat_tempo y sr ''mean''])
      | Inr t \<Rightarrow>
          (case import_numpy env of
             Some e \<Rightarrow> (tempo, [Call_beat_tempo y sr ''mean'', Call_import_numpy])
           | None \<Rightarrow>
               (case t of
                  TArray xs \<Rightarrow> (np_mean env xs, [Call_beat_tempo y sr ''mean'', Call_import_numpy])
                | TScalar x \<Rightarrow> (x, [Call_beat_tempo y sr ''mean'', Call_import_numpy]))))"

text \<open>
  \<^verbatim>\<open>beats\<close> is \<open>Some\<close> of the beat frames when it has a length and \<open>None\<close> when it
  has none. \<open>needs_fallback\<close> is the test of line 89, \<open>len_beats\<close> the second
  component of the result (line 105).
\<close>

definition needs_fallback :: "real \<Rightarrow> nat list option \<Rightarrow> bool" where
  "needs_fallback tempo beats =
     (tempo = 0 \<or> tempo \<le> 0 \<or> (case beats of Some b \<Rightarrow> length b = 0 | None \<Rightarrow> False))"

definition len_beats :: "nat list option \<Rightarrow> int" where
  "len_beats beats = (case beats of Some b \<Rightarrow> int (length b) | None \<Rightarrow> 0)"

text \<open>The body of the outer \<^verbatim>\<open>try\<close> (lines 75 to 107).\<close>

definition bounded_tempo_try :: "config \<Rightarrow> env \<Rightarrow> string \<Rightarrow> (real \<times> int \<times> real) comp" where
  "bounded_tempo_try cfg env path =
     bind (call_unit Call_import_librosa (import_librosa env Import_tempo)) (\<lambda>_.
     let start = time env Clock_tempo_start in
     bind (call_val (Call_load (tempo_load_req cfg path)) (load env (tempo_load_req cfg path)))
       (\<lambda>(y, sr).
          case (y, sr) of
            (Some ys, Some r) \<Rightarrow>
              if length ys = 0 \<or> r = 0 then (Inr (0, 0, 0), [])
              else
                bind (call_val (Call_beat_track ys r) (beat_track env ys r)) (\<lambda>(tempo, beats).
                  case (if needs_fallback tempo beats
                        then tempo_fallback env ys r tempo else (tempo, [])) of
                    (tempo', l) \<Rightarrow>
                      let elapsed = time env Clock_tempo_stop - start in
                      (Inr (if tempo' \<noteq> 0 then tempo' else 0, len_beats beats, elapsed), l))
          | _ \<Rightarrow> (Inr (0, 0, 0), [])))"

definition bounded_tempo :: "config \<Rightarrow> env \<Rightarrow> string \<Rightarrow> (real \<times> int \<times> real) comp" where
  "bounded_tempo cfg env path =
     (if \<not> ENABLE_TEMPO cfg then (Inr (0, 0, 0), [])
      else try_except (bounded_tempo_try cfg env path) (\<lambda>e. (Inr (0, 0, 0), [])))"

subsection \<open>\<^verbatim>\<open>handler\<close> (lines 116 to 220)\<close>

text \<open>
  \<^verbatim>\<open>with tempfile.NamedTemporaryFile(suffix=...) as tmp\<close>: the scratch file is created,
  the body runs, and the file is closed on every way out of the body. An exception of
  the closing replaces the outcome of the body.
\<close>

definition with_tmp :: "env \<Rightarrow> string \<Rightarrow> (string \<Rightarrow> 'a comp) \<Rightarrow> 'a comp" where
  "with_tmp env sfx body =
     (case NamedTemporaryFile env sfx of
        Inl e \<Rightarrow> (Inl e, [Call_NamedTemporaryFile sfx])
      | Inr name \<Rightarrow>
          (case body name of
             (r, l) \<Rightarrow>
               (case tmp_close env name of
                  Some e' \<Rightarrow> (Inl e', Call_NamedTemporaryFile sfx # l @ [Call_tmp_close name])
                | None \<Rightarrow> (r, Call_NamedTemporaryFile sfx # l @ [Call_tmp_close name]))))"

text \<open>The value bound to \<^verbatim>\<open>:a\<close> (line 178).\<close>

definition analyzed_at_value :: "datetime \<Rightarrow> string" where
  "analyzed_at_value now = py_replace (isoformat now) ''+00:00'' ''Z''"

definition update_req :: "env \<Rightarrow> pyval \<Rightarrow> real \<Rightarrow> real \<Rightarrow> update_item_req" where
  "update_req env file_id duration tempo =
     \<lparr>upd_Key = [(''file_id'', file_id)],
      UpdateExpression = ''SET #duration = :d, #tempo = :t, #analyzed_at = :a'',
      ExpressionAttributeNames =
        [(''#duration'', ''duration''), (''#tempo'', ''tempo''), (''#analyzed_at'', ''analyzed_at'')],
      ExpressionAttributeValues =
        [('':d'', PDecimal (float_str env duration)),
         ('':t'', PDecimal (float_str env tempo)),
         ('':a'', PStr (analyzed_at_value (utc_now env)))],
      ReturnValues = None\<rparr>"

definition insert_item :: "env \<Rightarrow> string \<Rightarrow> real \<Rightarrow> real \<Rightarrow> pyval" where
  "insert_item env key duration tempo =
     PDict [(PStr ''file_id'', PStr (basename key)),
            (PStr ''s3_key'', PStr key),
            (PStr ''duration'', PDecimal (float_str env duration)),
            (PStr ''tempo'', PDecimal (float_str env tempo))]"

definition is_validation_error :: "exn \<Rightarrow> bool" where
  "is_validation_error e =
     (is_substring ''ValidationException'' (exn_str e) \<or>
      is_substring ''reserved keyword'' (exn_str e))"

text \<open>
  The metadata step (lines 166 to 214). The request of the update is built once and
  both attempts send it.
\<close>

definition persist :: "env \<Rightarrow> pyval \<Rightarrow> string \<Rightarrow> real \<Rightarrow> real \<Rightarrow> unit comp" where
  "persist env file_id key duration tempo =
     (if truthy file_id then
        let req = update_req env file_id duration tempo in
        try_except
          (bind (call_val (Call_update_item req) (update_item env 0 req)) (\<lambda>_. (Inr (), [])))
          (\<lambda>e. if is_validation_error e
                then bind (call_val (Call_update_item req) (update_item env 1 req))
                       (\<lambda>_. (Inr (), []))
                else (Inl e, []))
      else
        call_unit (Call_put_item (insert_item env key duration tempo))
          (put_item env (insert_item env key duration tempo)))"

definition analysis_dict ::
  "config \<Rightarrow> real \<Rightarrow> real \<Rightarrow> int \<Rightarrow> string \<Rightarrow> real \<Rightarrow> real \<Rightarrow> real \<Rightarrow> pyval" where
  "analysis_dict cfg duration tempo beats_count duration_method download_s duration_s tempo_s =
     PDict [(PStr ''duration'', PFloat duration),
            (PStr ''tempo'', PFloat tempo),
            (PStr ''beats'', PInt beats_count),
            (PStr ''duration_method'', PStr duration_method),
            (PStr ''timings'',
               PDict [(PStr ''download_s'', PFloat download_s),
                      (PStr ''duration_s'', PFloat duration_s),
                      (PStr ''tempo_s'', PFloat tempo_s)]),
            (PStr ''tempo_enabled'', PBool (ENABLE_TEMPO cfg)),
            (PStr ''tempo_max_seconds'', PFloat (TEMPO_MAX_SECONDS cfg)),
            (PStr ''tempo_sr'', PInt (TEMPO_SR cfg))]"

definition artifact_req :: "config \<Rightarrow> env \<Rightarrow> pyval \<Rightarrow> string \<Rightarrow> pyval \<Rightarrow> put_object_req" where
  "artifact_req cfg env bucket key analysis =
     \<lparr>Bucket = bucket,
      Key = OUT_PREFIX cfg @ basename key @ ''.json'',
      Body = json_dumps env analysis,
      ContentType = ''application/json''\<rparr>"

definition success_dict :: "pyval \<Rightarrow> string \<Rightarrow> pyval \<Rightarrow> pyval" where
  "success_dict bucket key analysis =
     PDict [(PStr ''bucket'', bucket), (PStr ''key'', PStr key), (PStr ''analysis'', analysis)]"

text \<open>
  The body of the \<^verbatim>\<open>with\<close> statement (lines 134 to 216), for a key that is a string.
\<close>

definition pipeline ::
  "config \<Rightarrow> env \<Rightarrow> pyval \<Rightarrow> string \<Rightarrow> pyval \<Rightarrow> real \<Rightarrow> string \<Rightarrow> pyval comp" where
  "pipeline cfg env bucket key file_id t0 tmp_name =
     bind (call_unit (Call_download_file bucket key tmp_name)
             (download_file env bucket key tmp_name)) (\<lambda>_.
     let download_s = time env Clock_download_end - t0;
         ext = lower (snd (splitext key));
         t1 = time env Clock_t1
     in
     bind (fast_duration env tmp_name ext) (\<lambda>(duration, duration_method).
     let duration_s = time env Clock_duration_end - t1;
         t2 = time env Clock_t2
     in
     bind (bounded_tempo cfg env tmp_name) (\<lambda>(tempo, beats_count, tempo_elapsed).
     let tempo_s = (if tempo_elapsed \<noteq> 0 then tempo_elapsed else time env Clock_tempo_end - t2);
         analysis = analysis_dict cfg duration tempo beats_count duration_method
                      download_s duration_s tempo_s
     in
     bind (call_unit (Call_put_object (artifact_req cfg env bucket key analysis))
             (put_object env (artifact_req cfg env bucket key analysis))) (\<lambda>_.
     bind (persist env file_id key duration tempo) (\<lambda>_.
     (Inr (success_dict bucket key analysis), []))))))"

text \<open>
  The body of the outer \<^verbatim>\<open>try\<close> (lines 131 to 216). \<^verbatim>\<open>os.path.splitext\<close> raises a
  \<^verbatim>\<open>TypeError\<close> on a key that is not a string, before the scratch file is created.
\<close>

definition handler_try :: "config \<Rightarrow> env \<Rightarrow> pyval \<Rightarrow> pyval \<Rightarrow> pyval \<Rightarrow> pyval comp" where
  "handler_try cfg env bucket key file_id =
     (case key of
        PStr k \<Rightarrow>
          with_tmp env (snd (splitext k)) (pipeline cfg env bucket k file_id (time env Clock_t0))
      | _ \<Rightarrow>
          (Inl (Exn False (''expected str, bytes or os.PathLike object, not '' @ type_name key)),
           []))"

definition handler :: "config \<Rightarrow> env \<Rightarrow> (string \<rightharpoonup> pyval) \<Rightarrow> pyval comp" where
  "handler cfg env event =
     (let bucket = dict_get event ''bucket'';
          key = dict_get event ''key'';
          file_id = dict_get event ''file_id''
      in if \<not> truthy bucket \<or> \<not> truthy key then (Inr (error_dict ''Missing bucket or key''), [])
         else try_except (handler_try cfg env bucket key file_id)
                (\<lambda>e. (Inr (error_dict (exn_str e)), [])))"

section \<open>Sample configuration and collaborators\<close>

text \<open>
  The defaults of the configuration (lines 19 to 24), and a set of collaborators in
  which every call succeeds. The examples below change one outcome at a time.
\<close>

definition default_config :: config where
  "default_config =
     \<lparr>OUT_PREFIX = ''analysis/'', ENABLE_TEMPO = True, TEMPO_MAX_SECONDS = 30,
      TEMPO_SR = 22050\<rparr>"

definition sample_float_str :: "real \<Rightarrow> string" where
  "sample_float_str x =
     (if x = 0 then ''0.0'' else if x = 3 / 2 then ''1.5'' else if x = 2 then ''2.0''
      else if x = 7 / 2 then ''3.5'' else if x = 120 then ''120.0'' else ''9.75'')"

definition sample_clock :: "clock_site \<Rightarrow> real" where
  "sample_clock s =
     (case s of
        Clock_t0 \<Rightarrow> 100 | Clock_download_end \<Rightarrow> 101 | Clock_t1 \<Rightarrow> 101
      | Clock_duration_end \<Rightarrow> 102 | Clock_t2 \<Rightarrow> 102 | Clock_tempo_start \<Rightarrow> 102
      | Clock_tempo_stop \<Rightarrow> 105 / 2 + 50 | Clock_tempo_end \<Rightarrow> 103)"

definition ok_env :: env where
  "ok_env =
     \<lparr>NamedTemporaryFile = (\<lambda>sfx. Inr (''/tmp/tmpq3x'' @ sfx)),
      tmp_close = (\<lambda>name. None),
      download_file = (\<lambda>bucket key name. None),
      put_object = (\<lambda>req. None),
      update_item = (\<lambda>attempt req. Inr Map.empty),
      put_item = (\<lambda>item. None),
      MutagenMP3_length = (\<lambda>path. Inr 2),
      sf_info_duration = (\<lambda>path. Inr (Some (7 / 2))),
      import_librosa = (\<lambda>site. None),
      get_duration = (\<lambda>path. Inr (7 / 2)),
      load = (\<lambda>req. Inr (Some [0, 1 / 2, 0, - 1 / 2], Some 22050)),
      beat_track = (\<lambda>y sr. Inr (120, Some [0, 1, 2])),
      beat_tempo = (\<lambda>y sr aggregate. Inr (TArray [120])),
      import_numpy = None,
      np_mean = (\<lambda>xs. sum_list xs / real (length xs)),
      time = sample_clock,
      utc_now = \<lparr>year = 2025, month = 3, day = 9, hour = 14, minute = 5, second = 7,
                 microsecond = 120034\<rparr>,
      uuid4 = ''12345678-1234-5678-1234-567812345678'',
      float_str = sample_float_str,
      json_dumps = (\<lambda>v. ''{...}'')\<rparr>"

definition sample_fields :: pyval where
  "sample_fields =
     PDict [(PStr ''tempo'', PFloat (3 / 2)),
            (PStr ''tags'', PList [PStr ''loop'', PTuple [PFloat 2, PInt 4]])]"

definition sample_item :: pyval where
  "sample_item =
     PDict [(PStr ''file_id'', PStr ''fid-1''), (PStr ''filename'', PStr ''abc.wav''),
            (PStr ''s3_key'', PStr ''uploads/fid-1.wav''),
            (PStr ''duration'', PDecimal ''3.5''), (PStr ''tempo'', PDecimal ''0'')]"

definition sample_update :: update_item_req where
  "sample_update =
     \<lparr>upd_Key = [(''file_id'', PStr ''fid-1'')],
      UpdateExpression = ''SET #tempo = :tempo, #duration = :duration'',
      ExpressionAttributeNames = [(''#tempo'', ''tempo''), (''#duration'', ''duration'')],
      ExpressionAttributeValues =
        [('':tempo'', PDecimal ''120.0''), ('':duration'', PDecimal ''3.5'')],
      ReturnValues = Some ''UPDATED_NEW''\<rparr>"

fun is_load :: "call \<Rightarrow> bool" where
  "is_load (Call_load req) = True"
| "is_load c = False"

definition fallback_fails_env :: env where
  "fallback_fails_env =
     ok_env\<lparr>beat_track := (\<lambda>y sr. Inr (120, Some [])),
            beat_tempo := (\<lambda>y sr aggregate. Inl (Exn False ''aggregate must be callable''))\<rparr>"

definition sf_zero_env :: env where
  "sf_zero_env = ok_env\<lparr>sf_info_duration := (\<lambda>path. Inr (Some 0))\<rparr>"

definition headers_fail_env :: env where
  "headers_fail_env =
     ok_env\<lparr>sf_info_duration := (\<lambda>path. Inl (Exn False ''Format not recognised.'')),
            get_duration := (\<lambda>path. Inl (Exn False ''NoBackendError''))\<rparr>"

definition no_audio_env :: env where
  "no_audio_env =
     ok_env\<lparr>MutagenMP3_length := (\<lambda>path. Inl (Exn False ''can't sync to MPEG frame'')),
            sf_info_duration := (\<lambda>path. Inl (Exn False ''Format not recognised.'')),
            import_librosa := (\<lambda>site. Some (Exn False ''No module named 'librosa''))\<rparr>"

definition tempo_off_config :: config where
  "tempo_off_config = default_config\<lparr>ENABLE_TEMPO := False\<rparr>"

definition no_librosa_env :: env where
  "no_librosa_env =
     ok_env\<lparr>import_librosa := (\<lambda>site. Some (Exn False ''No module named 'librosa''))\<rparr>"

definition load_fails_env :: env where
  "load_fails_env = ok_env\<lparr>load := (\<lambda>req. Inl (Exn False ''NoBackendError''))\<rparr>"

definition beat_track_fails_env :: env where
  "beat_track_fails_env =
     ok_env\<lparr>beat_track := (\<lambda>y sr. Inl (Exn False ''ParameterError''))\<rparr>"

section \<open>Notions for stating the properties of a run\<close>

text \<open>
  What a run of \<^verbatim>\<open>handler\<close> measures once the download has succeeded: the pair
  \<^verbatim>\<open>_fast_duration\<close> returns, the triple \<^verbatim>\<open>_bounded_tempo\<close> returns, the calls the
  two make, and the analysis dictionary assembled from them (lines 137 to 155).
\<close>

definition run_duration :: "env \<Rightarrow> string \<Rightarrow> string \<Rightarrow> real \<times> string" where
  "run_duration env key tmp_name =
     (case fst (fast_duration env tmp_name (lower (snd (splitext key)))) of
        Inr r \<Rightarrow> r
      | Inl e \<Rightarrow> (0, ''unknown''))"

definition run_tempo :: "config \<Rightarrow> env \<Rightarrow> string \<Rightarrow> real \<times> int \<times> real" where
  "run_tempo cfg env tmp_name =
     (case fst (bounded_tempo cfg env tmp_name) of
        Inr r \<Rightarrow> r
      | Inl e \<Rightarrow> (0, 0, 0))"

definition extraction_log :: "config \<Rightarrow> env \<Rightarrow> string \<Rightarrow> string \<Rightarrow> call list" where
  "extraction_log cfg env key tmp_name =
     snd (fast_duration env tmp_name (lower (snd (splitext key))))
     @ snd (bounded_tempo cfg env tmp_name)"

definition run_analysis :: "config \<Rightarrow> env \<Rightarrow> string \<Rightarrow> string \<Rightarrow> pyval" where
  "run_analysis cfg env key tmp_name =
     (case (run_duration env key tmp_name, run_tempo cfg env tmp_name) of
        ((duration, duration_method), (tempo, beats_count, tempo_elapsed)) \<Rightarrow>
          analysis_dict cfg duration tempo beats_count duration_method
            (time env Clock_download_end - time env Clock_t0)
            (time env Clock_duration_end - time env Clock_t1)
            (if tempo_elapsed \<noteq> 0 then tempo_elapsed
             else time env Clock_tempo_end - time env Clock_t2))"

definition run_artifact :: "config \<Rightarrow> env \<Rightarrow> pyval \<Rightarrow> string \<Rightarrow> string \<Rightarrow> put_object_req" where
  "run_artifact cfg env bucket key tmp_name =
     artifact_req cfg env bucket key (run_analysis cfg env key tmp_name)"

definition run_persist :: "config \<Rightarrow> env \<Rightarrow> pyval \<Rightarrow> string \<Rightarrow> string \<Rightarrow> unit comp" where
  "run_persist cfg env file_id key tmp_name =
     persist env file_id key (fst (run_duration env key tmp_name)) (fst (run_tempo cfg env tmp_name))"

definition run_update :: "config \<Rightarrow> env \<Rightarrow> pyval \<Rightarrow> string \<Rightarrow> string \<Rightarrow> update_item_req" where
  "run_update cfg env file_id key tmp_name =
     update_req env file_id (fst (run_duration env key tmp_name)) (fst (run_tempo cfg env tmp_name))"

definition run_insert :: "config \<Rightarrow> env \<Rightarrow> string \<Rightarrow> string \<Rightarrow> pyval" where
  "run_insert cfg env key tmp_name =
     insert_item env key (fst (run_duration env key tmp_name)) (fst (run_tempo cfg env tmp_name))"

text \<open>
  A run reaches the metadata step when the scratch file is created under the name
  \<open>tmp_name\<close>, the download succeeds and the artifact write succeeds.
\<close>

definition reaches_persist :: "config \<Rightarrow> env \<Rightarrow> pyval \<Rightarrow> string \<Rightarrow> string \<Rightarrow> bool" where
  "reaches_persist cfg env bucket key tmp_name =
     (NamedTemporaryFile env (snd (splitext key)) = Inr tmp_name
      \<and> download_file env bucket key tmp_name = None
      \<and> put_object env (run_artifact cfg env bucket key tmp_name) = None)"

fun is_put_object :: "call \<Rightarrow> bool" where
  "is_put_object (Call_put_object req) = True"
| "is_put_object c = False"

fun is_update_item :: "call \<Rightarrow> bool" where
  "is_update_item (Call_update_item req) = True"
| "is_update_item c = False"

fun is_put_item :: "call \<Rightarrow> bool" where
  "is_put_item (Call_put_item item) = True"
| "is_put_item c = False"

definition is_store_call :: "call \<Rightarrow> bool" where
  "is_store_call c = (is_update_item c \<or> is_put_item c)"

text \<open>
  Modelled from the spec: the object store behind \<^verbatim>\<open>s3.put_object\<close>, which is the
  storage service's and not code of the repository. A put that succeeds stores the body
  and the content type under the bucket and key, in place of whatever was there
  (section 4.5: no merge semantics, each write fully overwrites prior content at that
  key). No other call of the analyzer writes an object.
\<close>

type_synonym object_store = "pyval \<times> string \<Rightarrow> (string \<times> string) option"

fun store_after_call :: "env \<Rightarrow> object_store \<Rightarrow> call \<Rightarrow> object_store" where
  "store_after_call env st (Call_put_object req) =
     (if put_object env req = None
      then st((Bucket req, Key req) \<mapsto> (Body req, ContentType req))
      else st)"
| "store_after_call env st c = st"

definition store_after :: "env \<Rightarrow> call list \<Rightarrow> object_store \<Rightarrow> object_store" where
  "store_after env l st = foldl (store_after_call env) st l"

fun is_audio_call :: "call \<Rightarrow> bool" where
  "is_audio_call (Call_MutagenMP3 path) = True"
| "is_audio_call (Call_sf_info path) = True"
| "is_audio_call Call_import_librosa = True"
| "is_audio_call (Call_get_duration path) = True"
| "is_audio_call (Call_load req) = True"
| "is_audio_call (Call_beat_track y sr) = True"
| "is_audio_call (Call_beat_tempo y sr aggregate) = True"
| "is_audio_call Call_import_numpy = True"
| "is_audio_call c = False"

text \<open>
  An event passes the check of line 127 with a string key when its bucket is truthy and
  its key is a non-empty string.
\<close>

definition accepted :: "(string \<rightharpoonup> pyval) \<Rightarrow> string \<Rightarrow> bool" where
  "accepted event key =
     (truthy (dict_get event ''bucket'') \<and> dict_get event ''key'' = PStr key \<and> key \<noteq> [])"

text \<open>The calls of a run up to and including the artifact write.\<close>

definition run_prefix :: "config \<Rightarrow> env \<Rightarrow> pyval \<Rightarrow> string \<Rightarrow> string \<Rightarrow> call list" where
  "run_prefix cfg env bucket key tmp_name =
     Call_NamedTemporaryFile (snd (splitext key)) # Call_download_file bucket key tmp_name
     # extraction_log cfg env key tmp_name
     @ [Call_put_object (run_artifact cfg env bucket key tmp_name)]"

text \<open>Sample events, and collaborators that fail at one place.\<close>

definition event_with_id :: "string \<rightharpoonup> pyval" where
  "event_with_id =
     [''bucket'' \<mapsto> PStr ''test-bucket'', ''key'' \<mapsto> PStr ''uploads/abc.wav'',
      ''file_id'' \<mapsto> PStr ''fid-1'']"

definition event_no_id :: "string \<rightharpoonup> pyval" where
  "event_no_id = [''bucket'' \<mapsto> PStr ''test-bucket'', ''key'' \<mapsto> PStr ''uploads/foo.mp3'']"

definition event_empty_id :: "string \<rightharpoonup> pyval" where
  "event_empty_id =
     [''bucket'' \<mapsto> PStr ''test-bucket'', ''key'' \<mapsto> PStr ''uploads/foo.mp3'',
      ''file_id'' \<mapsto> PStr '''']"

definition tmp_fails_env :: env where
  "tmp_fails_env =
     ok_env\<lparr>NamedTemporaryFile := (\<lambda>sfx. Inl (Exn False ''No space left on device''))\<rparr>"

definition close_fails_env :: env where
  "close_fails_env = ok_env\<lparr>tmp_close := (\<lambda>name. Some (Exn False ''No such file or directory''))\<rparr>"

definition download_fails_env :: env where
  "download_fails_env =
     ok_env\<lparr>download_file := (\<lambda>bucket key name. Some (Exn True ''Not Found''))\<rparr>"

definition put_object_fails_env :: env where
  "put_object_fails_env = ok_env\<lparr>put_object := (\<lambda>req. Some (Exn True ''Access Denied''))\<rparr>"

definition put_item_fails_env :: env where
  "put_item_fails_env = ok_env\<lparr>put_item := (\<lambda>item. Some (Exn True ''Requested resource not found''))\<rparr>"

definition update_throttled_env :: env where
  "update_throttled_env =
     ok_env\<lparr>update_item := (\<lambda>attempt req. Inl (Exn True ''Throughput exceeded''))\<rparr>"

definition update_validation_env :: env where
  "update_validation_env =
     ok_env\<lparr>update_item := (\<lambda>attempt req.
        if attempt = 0 then Inl (Exn True ''ValidationException: bad expression'')
        else Inr Map.empty)\<rparr>"

definition update_validation_twice_env :: env where
  "update_validation_twice_env =
     ok_env\<lparr>update_item := (\<lambda>attempt req.
        if attempt = 0 then Inl (Exn True ''ValidationException: bad expression'')
        else Inl (Exn True ''ValidationException: still bad''))\<rparr>"

definition mutagen_fails_env :: env where
  "mutagen_fails_env =
     ok_env\<lparr>MutagenMP3_length := (\<lambda>path. Inl (Exn False ''can't sync to MPEG frame''))\<rparr>"

text \<open>
  The update request of a run on \<open>event_with_id\<close> with the sample collaborators, and
  the item of a run on an event without a file id.
\<close>

definition sample_pipeline_update :: update_item_req where
  "sample_pipeline_update =
     \<lparr>upd_Key = [(''file_id'', PStr ''fid-1'')],
      UpdateExpression = ''SET #duration = :d, #tempo = :t, #analyzed_at = :a'',
      ExpressionAttributeNames =
        [(''#duration'', ''duration''), (''#tempo'', ''tempo''), (''#analyzed_at'', ''analyzed_at'')],
      ExpressionAttributeValues =
        [('':d'', PDecimal ''3.5''), ('':t'', PDecimal ''120.0''),
         ('':a'', PStr ''2025-03-09T14:05:07.120034Z'')],
      ReturnValues = None\<rparr>"

definition sample_pipeline_insert :: pyval where
  "sample_pipeline_insert =
     PDict [(PStr ''file_id'', PStr ''foo.mp3''), (PStr ''s3_key'', PStr ''uploads/foo.mp3''),
            (PStr ''duration'', PDecimal ''2.0''), (PStr ''tempo'', PDecimal ''120.0'')]"

section \<open>Cleaning values for the metadata store\<close>

lemma child_clean_ddb:
  "child (clean_ddb fs v) s = map_option (clean_ddb fs) (child v s)"
proof (cases v)
  case (PDict kvs)
  have "map_of (map (\<lambda>kv. (fst kv, clean_ddb fs (snd kv))) kvs) k
        = map_option (clean_ddb fs) (map_of kvs k)" for k
    by (induction kvs) auto
  with PDict show ?thesis by (cases s) simp_all
qed (cases s; simp)+

lemma at_path_clean_ddb:
  "at_path (clean_ddb fs v) p = map_option (clean_ddb fs) (at_path v p)"
proof (induction p arbitrary: v)
  case Nil
  show ?case by simp
next
  case (Cons s p)
  show ?case
    by (cases "child v s") (simp_all add: child_clean_ddb Cons.IH)
qed

lemma clean_ddb_not_float: "clean_ddb fs v \<noteq> PFloat x"
  by (cases v) simp_all

lemma clean_ddb_leaf: "\<not> is_container w \<Longrightarrow> \<not> is_float w \<Longrightarrow> clean_ddb fs w = w"
  by (cases w) simp_all

lemma skeleton_clean_ddb: "skeleton (clean_ddb fs v) = skeleton v"
  by (induction fs v rule: clean_ddb.induct) simp_all

lemma no_float_at_clean_ddb: "at_path (clean_ddb fs v) p \<noteq> Some (PFloat y)"
  by (cases "at_path v p") (simp_all add: at_path_clean_ddb clean_ddb_not_float)

lemma save_metadata_item:
  assumes "Call_put_item item \<in> set (snd (save_metadata env filename s3_key duration tempo file_id))"
  shows "\<exists>raw. item = clean_ddb (float_str env) raw"
  using assms
  by (auto simp: save_metadata_def Let_def simp del: clean_ddb.simps
        split: option.splits if_splits)

lemma update_metadata_req:
  assumes "Call_update_item req \<in> set (snd (update_metadata env fid kw))"
  shows "upd_Key req = [(''file_id'', PStr fid)] \<and>
         (\<forall>kv \<in> set (ExpressionAttributeValues req). \<exists>raw. snd kv = clean_ddb (float_str env) raw)"
  using assms
  by (auto simp: update_metadata_def Let_def simp del: clean_ddb.simps
        split: sum.splits if_splits)

text \<open>
  C10, as the code has it. \<^verbatim>\<open>_clean_ddb\<close> replaces the float at every position of
  the value (a position is reached through dict values and through list and tuple
  elements, at any depth) by \<^verbatim>\<open>Decimal(str(x))\<close>, leaves every other leaf at a
  position unchanged and keeps the container structure, so no position of the result
  holds a float. Hence no position of the item \<^verbatim>\<open>save_metadata\<close> puts, and of a value
  \<^verbatim>\<open>update_metadata\<close> sends, holds a float, and the key of the update is the string
  \<^verbatim>\<open>file_id\<close>. Values that \<^verbatim>\<open>_clean_ddb\<close> does not enter (a set, the keys of a
  dict) are returned as they are.
\<close>

theorem clean_ddb_cleans_every_position:
  "(at_path v p = Some (PFloat x) \<longrightarrow> at_path (clean_ddb fs v) p = Some (PDecimal (fs x)))
   \<and> (at_path v p = Some w \<and> \<not> is_container w \<and> \<not> is_float w
        \<longrightarrow> at_path (clean_ddb fs v) p = Some w)
   \<and> skeleton (clean_ddb fs v) = skeleton v
   \<and> at_path (clean_ddb fs v) p \<noteq> Some (PFloat y)
   \<and> (Call_put_item item \<in> set (snd (save_metadata env filename s3_key duration tempo file_id))
        \<longrightarrow> at_path item p \<noteq> Some (PFloat y))
   \<and> (Call_update_item req \<in> set (snd (update_metadata env fid kw))
        \<longrightarrow> upd_Key req = [(''file_id'', PStr fid)]
            \<and> (\<forall>kv \<in> set (ExpressionAttributeValues req). at_path (snd kv) p \<noteq> Some (PFloat y)))"
proof (intro conjI impI)
  assume "at_path v p = Some (PFloat x)"
  then show "at_path (clean_ddb fs v) p = Some (PDecimal (fs x))"
    by (simp add: at_path_clean_ddb)
next
  assume "at_path v p = Some w \<and> \<not> is_container w \<and> \<not> is_float w"
  then show "at_path (clean_ddb fs v) p = Some w"
    by (simp add: at_path_clean_ddb clean_ddb_leaf)
next
  show "skeleton (clean_ddb fs v) = skeleton v"
    by (rule skeleton_clean_ddb)
next
  show "at_path (clean_ddb fs v) p \<noteq> Some (PFloat y)"
    by (rule no_float_at_clean_ddb)
next
  assume "Call_put_item item \<in> set (snd (save_metadata env filename s3_key duration tempo file_id))"
  then obtain raw where "item = clean_ddb (float_str env) raw"
    using save_metadata_item by blast
  then show "at_path item p \<noteq> Some (PFloat y)"
    by (simp add: no_float_at_clean_ddb)
next
  assume a: "Call_update_item req \<in> set (snd (update_metadata env fid kw))"
  then show "upd_Key req = [(''file_id'', PStr fid)]"
    using update_metadata_req by blast
  show "\<forall>kv \<in> set (ExpressionAttributeValues req). at_path (snd kv) p \<noteq> Some (PFloat y)"
  proof
    fix kv assume "kv \<in> set (ExpressionAttributeValues req)"
    with a obtain raw where "snd kv = clean_ddb (float_str env) raw"
      using update_metadata_req by blast
    then show "at_path (snd kv) p \<noteq> Some (PFloat y)"
      by (simp add: no_float_at_clean_ddb)
  qed
qed

theorem clean_ddb_cleans_every_position_witness:
  "at_path sample_fields [Val (PStr ''tags''), Elem 1, Elem 0] = Some (PFloat 2)
   \<and> at_path (clean_ddb sample_float_str sample_fields) [Val (PStr ''tags''), Elem 1, Elem 0]
       = Some (PDecimal ''2.0'')
   \<and> at_path sample_fields [Val (PStr ''tags''), Elem 1, Elem 1] = Some (PInt 4)
   \<and> at_path (clean_ddb sample_float_str sample_fields) [Val (PStr ''tags''), Elem 1, Elem 1]
       = Some (PInt 4)
   \<and> Call_put_item sample_item
       \<in> set (snd (save_metadata ok_env ''abc.wav'' ''uploads/fid-1.wav'' (PFloat (7 / 2)) PNone
                     (Some ''fid-1'')))
   \<and> at_path sample_item [Val (PStr ''duration'')] \<noteq> Some (PFloat (7 / 2))
   \<and> Call_update_item sample_update
       \<in> set (snd (update_metadata ok_env ''fid-1''
                     [(''tempo'', PFloat 120), (''duration'', PFloat (7 / 2))]))
   \<and> upd_Key sample_update = [(''file_id'', PStr ''fid-1'')]"
proof -
  let ?p0 = "[Val (PStr ''tags''), Elem 1, Elem 0]"
  let ?p1 = "[Val (PStr ''tags''), Elem 1, Elem 1]"
  have h0: "at_path sample_fields ?p0 = Some (PFloat 2)"
    by (simp add: sample_fields_def)
  have h1: "at_path sample_fields ?p1 = Some (PInt 4)
            \<and> \<not> is_container (PInt 4) \<and> \<not> is_float (PInt 4)"
    by (simp add: sample_fields_def)
  have h2: "Call_put_item sample_item
            \<in> set (snd (save_metadata ok_env ''abc.wav'' ''uploads/fid-1.wav'' (PFloat (7 / 2)) PNone
                          (Some ''fid-1'')))"
    by (simp add: save_metadata_def new_item_def ok_env_def sample_item_def decimal_or_keep_def
          sample_float_str_def Let_def)
  have h3: "Call_update_item sample_update
            \<in> set (snd (update_metadata ok_env ''fid-1''
                          [(''tempo'', PFloat 120), (''duration'', PFloat (7 / 2))]))"
    by (simp add: update_metadata_def ok_env_def sample_update_def sample_float_str_def Let_def)
  have c0: "at_path (clean_ddb sample_float_str sample_fields) ?p0
            = Some (PDecimal (sample_float_str 2))"
    using clean_ddb_cleans_every_position [where v = sample_fields and p = ?p0 and x = 2] h0
    by blast
  have c1: "at_path (clean_ddb sample_float_str sample_fields) ?p1 = Some (PInt 4)"
    using clean_ddb_cleans_every_position [where v = sample_fields and p = ?p1 and w = "PInt 4"] h1
    by blast
  have c2: "at_path sample_item [Val (PStr ''duration'')] \<noteq> Some (PFloat (7 / 2))"
    using clean_ddb_cleans_every_position [where item = sample_item] h2 by blast
  have c3: "upd_Key sample_update = [(''file_id'', PStr ''fid-1'')]"
    using clean_ddb_cleans_every_position [where req = sample_update] h3 by blast
  have "sample_float_str 2 = ''2.0''"
    by (simp add: sample_float_str_def)
  with h0 h1 h2 h3 c0 c1 c2 c3 show ?thesis by simp
qed

text \<open>
  C10 as stated fails: a float inside a set, or a float that is the key of a dict, is
  a float occurring in the value, and \<^verbatim>\<open>_clean_ddb\<close> returns it unchanged;
  \<^verbatim>\<open>update_metadata\<close> then sends the raw float to the store.
\<close>

theorem clean_ddb_set_counterexample:
  "clean_ddb sample_float_str (PSet [PFloat (3 / 2)]) = PSet [PFloat (3 / 2)]
   \<and> clean_ddb sample_float_str (PDict [(PFloat (3 / 2), PStr ''x'')])
     = PDict [(PFloat (3 / 2), PStr ''x'')]
   \<and> snd (update_metadata ok_env ''fid-1'' [(''levels'', PSet [PFloat (3 / 2)])])
     = [Call_update_item
          \<lparr>upd_Key = [(''file_id'', PStr ''fid-1'')],
           UpdateExpression = ''SET #levels = :levels'',
           ExpressionAttributeNames = [(''#levels'', ''levels'')],
           ExpressionAttributeValues = [('':levels'', PSet [PFloat (3 / 2)])],
           ReturnValues = Some ''UPDATED_NEW''\<rparr>]"
  by (simp add: update_metadata_def ok_env_def Let_def)

section \<open>The handler's input check\<close>

lemmas comp_defs = bind_def try_except_def call_unit_def call_val_def

text \<open>
  C2. When the event has no bucket or no key (or holds a value there that Python reads
  as false, which is how the code tests for it), \<^verbatim>\<open>handler\<close> returns exactly
  \<^verbatim>\<open>{"error": "Missing bucket or key"}\<close> and has called no collaborator: no download,
  no artifact write, no metadata-store call.
\<close>

theorem handler_missing_bucket_or_key:
  assumes "event ''bucket'' = None \<or> event ''key'' = None
           \<or> \<not> truthy (dict_get event ''bucket'') \<or> \<not> truthy (dict_get event ''key'')"
  shows "handler cfg env event
         = (Inr (PDict [(PStr ''error'', PStr ''Missing bucket or key'')]), [])"
  using assms by (auto simp: handler_def dict_get_def error_dict_def Let_def)

theorem handler_missing_bucket_or_key_witness:
  "handler default_config ok_env [''file_id'' \<mapsto> PStr ''fid-1'']
   = (Inr (PDict [(PStr ''error'', PStr ''Missing bucket or key'')]), [])"
  using handler_missing_bucket_or_key [of "[''file_id'' \<mapsto> PStr ''fid-1'']" default_config ok_env]
  by simp

section \<open>The duration resolver\<close>

lemma try_mutagen_Some:
  "try_mutagen env path ext = (Some r, l) \<Longrightarrow>
     ext = ''.mp3'' \<and> snd r = ''mutagen'' \<and> l = [Call_MutagenMP3 path]"
  by (auto simp: try_mutagen_def split: if_splits sum.splits)

lemma try_mutagen_None:
  "try_mutagen env path ext = (None, l) \<Longrightarrow> l = [] \<or> l = [Call_MutagenMP3 path]"
  by (auto simp: try_mutagen_def split: if_splits sum.splits)

lemma try_sf_info_Some:
  "try_sf_info env path = (Some r, l) \<Longrightarrow> snd r = ''soundfile.info'' \<and> l = [Call_sf_info path]"
  by (auto simp: try_sf_info_def split: if_splits sum.splits option.splits)

lemma try_sf_info_log: "snd (try_sf_info env path) = [Call_sf_info path]"
  by (auto simp: try_sf_info_def split: if_splits sum.splits option.splits)

lemma try_get_duration_Some:
  "try_get_duration env path = (Some r, l) \<Longrightarrow>
     snd r = ''librosa.get_duration'' \<and> l = [Call_import_librosa, Call_get_duration path]"
  by (auto simp: try_get_duration_def split: if_splits sum.splits option.splits)

lemma try_partial_Some:
  "try_partial env path = (Some r, l) \<Longrightarrow>
     snd r = ''librosa.partial'' \<and> l = [Call_import_librosa, Call_load (partial_load_req path)]"
  by (auto simp: try_partial_def split: if_splits sum.splits option.splits prod.splits)

lemma fast_duration_returns: "\<exists>r l. fast_duration env path ext = (Inr r, l)"
  by (auto simp: fast_duration_def Let_def split: prod.splits option.splits)

lemma fast_duration_unknown:
  "fst (fast_duration env path ext) = Inr (0, ''unknown'') \<longleftrightarrow>
     fst (try_mutagen env path (lower ext)) = None \<and> fst (try_sf_info env path) = None \<and>
     fst (try_get_duration env path) = None \<and> fst (try_partial env path) = None"
  by (auto simp: fast_duration_def Let_def split: prod.splits option.splits
        dest: try_mutagen_Some try_sf_info_Some try_get_duration_Some try_partial_Some)


text \<open>
  C3. \<^verbatim>\<open>_fast_duration\<close> never raises. Its four blocks run in the order mutagen
  (for \<^verbatim>\<open>.mp3\<close> only), \<^verbatim>\<open>soundfile.info\<close>, \<^verbatim>\<open>librosa.get_duration\<close>, partial
  load; the result is the pair of the first block that returns one, with that block's
  label, and the log ends with that block's calls, so no later block ran. The result is
  \<^verbatim>\<open>(0.0, "unknown")\<close> exactly when no block returns a pair.
\<close>

theorem fast_duration_first_success:
  "(\<exists>r l. fast_duration env path ext = (Inr r, l))
   \<and> (lower ext = ''.mp3'' \<and> MutagenMP3_length env path = Inr d \<longrightarrow>
        fast_duration env path ext = (Inr (d, ''mutagen''), [Call_MutagenMP3 path]))
   \<and> (try_mutagen env path (lower ext) = (Some r1, l1) \<longrightarrow>
        fast_duration env path ext = (Inr r1, [Call_MutagenMP3 path]) \<and> snd r1 = ''mutagen'')
   \<and> (try_mutagen env path (lower ext) = (None, l1) \<and> try_sf_info env path = (Some r2, l2) \<longrightarrow>
        fast_duration env path ext = (Inr r2, l1 @ [Call_sf_info path])
        \<and> snd r2 = ''soundfile.info'')
   \<and> (try_mutagen env path (lower ext) = (None, l1) \<and> try_sf_info env path = (None, l2)
        \<and> try_get_duration env path = (Some r3, l3) \<longrightarrow>
        fast_duration env path ext
          = (Inr r3, l1 @ [Call_sf_info path, Call_import_librosa, Call_get_duration path])
        \<and> snd r3 = ''librosa.get_duration'')
   \<and> (try_mutagen env path (lower ext) = (None, l1) \<and> try_sf_info env path = (None, l2)
        \<and> try_get_duration env path = (None, l3) \<and> try_partial env path = (Some r4, l4) \<longrightarrow>
        fast_duration env path ext
          = (Inr r4, l1 @ [Call_sf_info path] @ l3 @
                     [Call_import_librosa, Call_load (partial_load_req path)])
        \<and> snd r4 = ''librosa.partial'')
   \<and> (fst (fast_duration env path ext) = Inr (0, ''unknown'') \<longleftrightarrow>
        fst (try_mutagen env path (lower ext)) = None \<and> fst (try_sf_info env path) = None \<and>
        fst (try_get_duration env path) = None \<and> fst (try_partial env path) = None)"
proof (intro conjI impI)
  show "\<exists>r l. fast_duration env path ext = (Inr r, l)"
    by (rule fast_duration_returns)
next
  assume "lower ext = ''.mp3'' \<and> MutagenMP3_length env path = Inr d"
  then show "fast_duration env path ext = (Inr (d, ''mutagen''), [Call_MutagenMP3 path])"
    by (simp add: fast_duration_def try_mutagen_def)
next
  assume a: "try_mutagen env path (lower ext) = (Some r1, l1)"
  then show "fast_duration env path ext = (Inr r1, [Call_MutagenMP3 path])"
    using try_mutagen_Some [OF a] by (simp add: fast_duration_def)
  show "snd r1 = ''mutagen''"
    using try_mutagen_Some [OF a] by simp
next
  assume a: "try_mutagen env path (lower ext) = (None, l1) \<and> try_sf_info env path = (Some r2, l2)"
  then show "fast_duration env path ext = (Inr r2, l1 @ [Call_sf_info path])"
    using try_sf_info_Some [of env path r2 l2] by (simp add: fast_duration_def)
  show "snd r2 = ''soundfile.info''"
    using a try_sf_info_Some [of env path r2 l2] by simp
next
  assume a: "try_mutagen env path (lower ext) = (None, l1) \<and> try_sf_info env path = (None, l2)
             \<and> try_get_duration env path = (Some r3, l3)"
  then have "l2 = [Call_sf_info path]"
    using try_sf_info_log [of env path] by simp
  with a show "fast_duration env path ext
          = (Inr r3, l1 @ [Call_sf_info path, Call_import_librosa, Call_get_duration path])"
    using try_get_duration_Some [of env path r3 l3] by (simp add: fast_duration_def)
  show "snd r3 = ''librosa.get_duration''"
    using a try_get_duration_Some [of env path r3 l3] by simp
next
  assume a: "try_mutagen env path (lower ext) = (None, l1) \<and> try_sf_info env path = (None, l2)
        \<and> try_get_duration env path = (None, l3) \<and> try_partial env path = (Some r4, l4)"
  then have "l2 = [Call_sf_info path]"
    using try_sf_info_log [of env path] by simp
  with a show "fast_duration env path ext
          = (Inr r4, l1 @ [Call_sf_info path] @ l3 @
                     [Call_import_librosa, Call_load (partial_load_req path)])"
    using try_partial_Some [of env path r4 l4] by (simp add: fast_duration_def)
  show "snd r4 = ''librosa.partial''"
    using a try_partial_Some [of env path r4 l4] by simp
next
  show "fst (fast_duration env path ext) = Inr (0, ''unknown'') \<longleftrightarrow>
        fst (try_mutagen env path (lower ext)) = None \<and> fst (try_sf_info env path) = None \<and>
        fst (try_get_duration env path) = None \<and> fst (try_partial env path) = None"
    by (rule fast_duration_unknown)
qed

lemma lower_wav: "lower ''.wav'' = ''.wav''"
  by (simp add: lower_def lower_char_def)

lemma lower_MP3: "lower ''.MP3'' = ''.mp3''"
  by (simp add: lower_def lower_char_def)

theorem fast_duration_first_success_witness:
  "fast_duration ok_env ''/tmp/a.MP3'' ''.MP3'' = (Inr (2, ''mutagen''), [Call_MutagenMP3 ''/tmp/a.MP3''])
   \<and> fast_duration ok_env ''/tmp/a.wav'' ''.wav''
       = (Inr (7 / 2, ''soundfile.info''), [Call_sf_info ''/tmp/a.wav''])
   \<and> fast_duration sf_zero_env ''/tmp/a.wav'' ''.wav''
       = (Inr (7 / 2, ''librosa.get_duration''),
          [Call_sf_info ''/tmp/a.wav'', Call_import_librosa, Call_get_duration ''/tmp/a.wav''])
   \<and> fast_duration headers_fail_env ''/tmp/a.wav'' ''.wav''
       = (Inr (4 / 22050, ''librosa.partial''),
          [Call_sf_info ''/tmp/a.wav'', Call_import_librosa, Call_get_duration ''/tmp/a.wav'',
           Call_import_librosa, Call_load (partial_load_req ''/tmp/a.wav'')])
   \<and> fst (fast_duration no_audio_env ''/tmp/a.MP3'' ''.MP3'') = Inr (0, ''unknown'')"
proof -
  have t1: "lower ''.MP3'' = ''.mp3'' \<and> MutagenMP3_length ok_env ''/tmp/a.MP3'' = Inr 2"
    by (simp add: lower_MP3 ok_env_def)
  have t1': "try_mutagen ok_env ''/tmp/a.MP3'' (lower ''.MP3'')
             = (Some (2, ''mutagen''), [Call_MutagenMP3 ''/tmp/a.MP3''])"
    by (simp add: lower_MP3 try_mutagen_def ok_env_def)
  have m: "try_mutagen e ''/tmp/a.wav'' (lower ''.wav'') = (None, [])" for e
    by (simp add: lower_wav try_mutagen_def)
  have t2: "try_sf_info ok_env ''/tmp/a.wav'' = (Some (7 / 2, ''soundfile.info''), [Call_sf_info ''/tmp/a.wav''])"
    by (simp add: try_sf_info_def ok_env_def)
  have t3: "try_sf_info sf_zero_env ''/tmp/a.wav'' = (None, [Call_sf_info ''/tmp/a.wav''])
            \<and> try_get_duration sf_zero_env ''/tmp/a.wav''
              = (Some (7 / 2, ''librosa.get_duration''),
                 [Call_import_librosa, Call_get_duration ''/tmp/a.wav''])"
    by (simp add: try_sf_info_def try_get_duration_def sf_zero_env_def ok_env_def)
  have t4: "try_sf_info headers_fail_env ''/tmp/a.wav'' = (None, [Call_sf_info ''/tmp/a.wav''])
            \<and> try_get_duration headers_fail_env ''/tmp/a.wav''
              = (None, [Call_import_librosa, Call_get_duration ''/tmp/a.wav''])
            \<and> try_partial headers_fail_env ''/tmp/a.wav''
              = (Some (4 / 22050, ''librosa.partial''),
                 [Call_import_librosa, Call_load (partial_load_req ''/tmp/a.wav'')])"
    by (simp add: try_sf_info_def try_get_duration_def try_partial_def headers_fail_env_def
          ok_env_def)
  have t5: "fst (try_mutagen no_audio_env ''/tmp/a.MP3'' (lower ''.MP3'')) = None
            \<and> fst (try_sf_info no_audio_env ''/tmp/a.MP3'') = None
            \<and> fst (try_get_duration no_audio_env ''/tmp/a.MP3'') = None
            \<and> fst (try_partial no_audio_env ''/tmp/a.MP3'') = None"
    by (simp add: lower_MP3 try_mutagen_def try_sf_info_def try_get_duration_def try_partial_def
          no_audio_env_def ok_env_def)
  note th = fast_duration_first_success
  have c1: "fast_duration ok_env ''/tmp/a.MP3'' ''.MP3''
            = (Inr (2, ''mutagen''), [Call_MutagenMP3 ''/tmp/a.MP3''])"
    using th [where env = ok_env and path = "''/tmp/a.MP3''" and ext = "''.MP3''" and d = 2] t1 by blast
  have c2: "fast_duration ok_env ''/tmp/a.wav'' ''.wav''
            = (Inr (7 / 2, ''soundfile.info''), [] @ [Call_sf_info ''/tmp/a.wav''])"
    using th [where env = ok_env and path = "''/tmp/a.wav''" and ext = "''.wav''" and ?l1.0 = "[]"
                 and ?r2.0 = "(7 / 2, ''soundfile.info'')"] m t2
    by blast
  have c3: "fast_duration sf_zero_env ''/tmp/a.wav'' ''.wav''
       = (Inr (7 / 2, ''librosa.get_duration''),
          [] @ [Call_sf_info ''/tmp/a.wav'', Call_import_librosa, Call_get_duration ''/tmp/a.wav''])"
    using th [where env = sf_zero_env and path = "''/tmp/a.wav''" and ext = "''.wav''"
                 and ?l1.0 = "[]" and ?r3.0 = "(7 / 2, ''librosa.get_duration'')"] m t3
    by blast
  have c4: "fast_duration headers_fail_env ''/tmp/a.wav'' ''.wav''
       = (Inr (4 / 22050, ''librosa.partial''),
          [] @ [Call_sf_info ''/tmp/a.wav''] @
          [Call_import_librosa, Call_get_duration ''/tmp/a.wav''] @
          [Call_import_librosa, Call_load (partial_load_req ''/tmp/a.wav'')])"
    using th [where env = headers_fail_env and path = "''/tmp/a.wav''" and ext = "''.wav''"
                 and ?l1.0 = "[]"
                 and ?l3.0 = "[Call_import_librosa, Call_get_duration ''/tmp/a.wav'']"
                 and ?r4.0 = "(4 / 22050, ''librosa.partial'')"] m t4
    by blast
  have c5: "fst (fast_duration no_audio_env ''/tmp/a.MP3'' ''.MP3'') = Inr (0, ''unknown'')"
    using th [where env = no_audio_env and path = "''/tmp/a.MP3''" and ext = "''.MP3''"] t5 by blast
  from c1 c2 c3 c4 c5 show ?thesis by simp
qed

section \<open>The tempo estimator\<close>

lemma bounded_tempo_returns: "\<exists>r l. bounded_tempo cfg env path = (Inr r, l)"
  by (cases "bounded_tempo_try cfg env path"; cases "fst (bounded_tempo_try cfg env path)")
     (auto simp: bounded_tempo_def try_except_def)

lemma bounded_tempo_outer_except:
  "ENABLE_TEMPO cfg \<Longrightarrow> bounded_tempo_try cfg env path = (Inl e, l) \<Longrightarrow>
     bounded_tempo cfg env path = (Inr (0, 0, 0), l)"
  by (simp add: bounded_tempo_def try_except_def)

lemma bounded_tempo_log:
  "ENABLE_TEMPO cfg \<Longrightarrow> snd (bounded_tempo cfg env path) = snd (bounded_tempo_try cfg env path)"
  by (cases "bounded_tempo_try cfg env path"; cases "fst (bounded_tempo_try cfg env path)")
     (auto simp: bounded_tempo_def try_except_def)

lemma tempo_fallback_log:
  "snd (tempo_fallback env y sr tempo) = [Call_beat_tempo y sr ''mean''] \<or>
   snd (tempo_fallback env y sr tempo) = [Call_beat_tempo y sr ''mean'', Call_import_numpy]"
  by (auto simp: tempo_fallback_def split: sum.splits option.splits t_alt.splits)

lemma tempo_fallback_no_load: "filter is_load (snd (tempo_fallback env y sr tempo)) = []"
  using tempo_fallback_log [of env y sr tempo] by auto

lemma try_import_fails:
  "import_librosa env Import_tempo = Some e \<Longrightarrow>
     bounded_tempo_try cfg env path = (Inl e, [Call_import_librosa])"
  by (simp add: bounded_tempo_try_def comp_defs)

lemma try_load_fails:
  "import_librosa env Import_tempo = None \<Longrightarrow> load env (tempo_load_req cfg path) = Inl e \<Longrightarrow>
     bounded_tempo_try cfg env path
     = (Inl e, [Call_import_librosa, Call_load (tempo_load_req cfg path)])"
  by (simp add: bounded_tempo_try_def comp_defs)

lemma try_load_empty:
  "import_librosa env Import_tempo = None \<Longrightarrow> load env (tempo_load_req cfg path) = Inr (y, sr) \<Longrightarrow>
   y = None \<or> y = Some [] \<or> sr = None \<or> sr = Some 0 \<Longrightarrow>
     bounded_tempo_try cfg env path
     = (Inr (0, 0, 0), [Call_import_librosa, Call_load (tempo_load_req cfg path)])"
  by (auto simp: bounded_tempo_try_def comp_defs split: option.splits)

lemma try_beat_track_fails:
  "import_librosa env Import_tempo = None \<Longrightarrow>
   load env (tempo_load_req cfg path) = Inr (Some ys, Some r) \<Longrightarrow> ys \<noteq> [] \<Longrightarrow> r \<noteq> 0 \<Longrightarrow>
   beat_track env ys r = Inl e \<Longrightarrow>
     bounded_tempo_try cfg env path
     = (Inl e, [Call_import_librosa, Call_load (tempo_load_req cfg path), Call_beat_track ys r])"
  by (simp add: bounded_tempo_try_def comp_defs)

lemma try_beat_track_ok:
  "import_librosa env Import_tempo = None \<Longrightarrow>
   load env (tempo_load_req cfg path) = Inr (Some ys, Some r) \<Longrightarrow> ys \<noteq> [] \<Longrightarrow> r \<noteq> 0 \<Longrightarrow>
   beat_track env ys r = Inr (tempo, beats) \<Longrightarrow>
     bounded_tempo_try cfg env path
     = (if needs_fallback tempo beats
        then (Inr (fst (tempo_fallback env ys r tempo), len_beats beats,
                   time env Clock_tempo_stop - time env Clock_tempo_start),
              [Call_import_librosa, Call_load (tempo_load_req cfg path), Call_beat_track ys r]
              @ snd (tempo_fallback env ys r tempo))
        else (Inr (tempo, len_beats beats,
                   time env Clock_tempo_stop - time env Clock_tempo_start),
              [Call_import_librosa, Call_load (tempo_load_req cfg path), Call_beat_track ys r]))"
  by (auto simp: bounded_tempo_try_def comp_defs needs_fallback_def len_beats_def Let_def
        split: prod.splits)

lemma tempo_fallback_fails:
  "beat_tempo env y sr ''mean'' = Inl e \<or>
   (beat_tempo env y sr ''mean'' = Inr t \<and> import_numpy env = Some e) \<Longrightarrow>
   fst (tempo_fallback env y sr tempo) = tempo"
  by (auto simp: tempo_fallback_def)

lemma bounded_tempo_try_loads:
  "filter is_load (snd (bounded_tempo_try cfg env path)) = [] \<or>
   filter is_load (snd (bounded_tempo_try cfg env path)) = [Call_load (tempo_load_req cfg path)]"
proof (cases "import_librosa env Import_tempo")
  case (Some e)
  then show ?thesis by (simp add: try_import_fails)
next
  case None
  show ?thesis
  proof (cases "load env (tempo_load_req cfg path)")
    case (Inl e)
    with None show ?thesis by (simp add: try_load_fails)
  next
    case (Inr ysr)
    obtain y sr where ysr: "ysr = (y, sr)" by (cases ysr)
    show ?thesis
    proof (cases "y = None \<or> y = Some [] \<or> sr = None \<or> sr = Some 0")
      case True
      with None Inr ysr show ?thesis by (simp add: try_load_empty)
    next
      case False
      then obtain ys r where yr: "y = Some ys" "sr = Some r" "ys \<noteq> []" "r \<noteq> 0" by auto
      show ?thesis
      proof (cases "beat_track env ys r")
        case (Inl e)
        with None Inr ysr yr show ?thesis by (simp add: try_beat_track_fails)
      next
        case (Inr tb)
        obtain tempo beats where "tb = (tempo, beats)" by (cases tb)
        with None \<open>load env (tempo_load_req cfg path) = Inr ysr\<close> ysr yr Inr show ?thesis
          by (simp add: try_beat_track_ok tempo_fallback_no_load)
      qed
    qed
  qed
qed


lemma tempo_fallback_no_load_pair:
  "tempo_fallback env y sr tempo = (x, l) \<Longrightarrow> filter is_load l = []"
  using tempo_fallback_no_load [of env y sr tempo] by simp

lemma mem_filter_cases:
  assumes "x \<in> set l" and "P x"
  shows "filter P l \<noteq> [] \<and> (filter P l = [a] \<longrightarrow> x = a)"
proof -
  have mem: "x \<in> set (filter P l)"
    using assms by simp
  have "filter P l \<noteq> []"
  proof
    assume eq: "filter P l = []"
    show False using mem unfolding eq by simp
  qed
  moreover have "x = a" if eq: "filter P l = [a]"
    using mem unfolding eq by simp
  ultimately show ?thesis by blast
qed

text \<open>
  C4, as the code has it. \<^verbatim>\<open>_bounded_tempo\<close> never raises. When the tempo feature is
  disabled it returns \<^verbatim>\<open>(0.0, 0, 0.0)\<close> and calls nothing, so the file is not
  touched. When it is enabled, every exception that leaves the body of the outer
  \<^verbatim>\<open>try\<close> gives \<^verbatim>\<open>(0.0, 0, 0.0)\<close>: a failed import of librosa, a failed decode, a
  failed beat tracker. A failure of the onset-based fallback is caught by the inner
  handler, which prints it and goes on: the result then keeps the beat tracker's
  tempo, the number of beats and the elapsed time.
\<close>

theorem bounded_tempo_degrades:
  "(\<not> ENABLE_TEMPO cfg \<longrightarrow> bounded_tempo cfg env path = (Inr (0, 0, 0), []))
   \<and> (\<exists>r l. bounded_tempo cfg env path = (Inr r, l))
   \<and> (ENABLE_TEMPO cfg \<and> bounded_tempo_try cfg env path = (Inl e, l) \<longrightarrow>
        bounded_tempo cfg env path = (Inr (0, 0, 0), l))
   \<and> (ENABLE_TEMPO cfg \<and> import_librosa env Import_tempo = Some e \<longrightarrow>
        fst (bounded_tempo cfg env path) = Inr (0, 0, 0))
   \<and> (ENABLE_TEMPO cfg \<and> import_librosa env Import_tempo = None
        \<and> load env (tempo_load_req cfg path) = Inl e \<longrightarrow>
        fst (bounded_tempo cfg env path) = Inr (0, 0, 0))
   \<and> (ENABLE_TEMPO cfg \<and> import_librosa env Import_tempo = None
        \<and> load env (tempo_load_req cfg path) = Inr (Some ys, Some r) \<and> ys \<noteq> [] \<and> r \<noteq> 0
        \<and> beat_track env ys r = Inl e \<longrightarrow>
        fst (bounded_tempo cfg env path) = Inr (0, 0, 0))
   \<and> (ENABLE_TEMPO cfg \<and> import_librosa env Import_tempo = None
        \<and> load env (tempo_load_req cfg path) = Inr (Some ys, Some r) \<and> ys \<noteq> [] \<and> r \<noteq> 0
        \<and> beat_track env ys r = Inr (tempo, beats) \<and> needs_fallback tempo beats
        \<and> (beat_tempo env ys r ''mean'' = Inl e
            \<or> (beat_tempo env ys r ''mean'' = Inr t \<and> import_numpy env = Some e)) \<longrightarrow>
        fst (bounded_tempo cfg env path)
        = Inr (tempo, len_beats beats, time env Clock_tempo_stop - time env Clock_tempo_start))"
proof (intro conjI impI)
  assume "\<not> ENABLE_TEMPO cfg"
  then show "bounded_tempo cfg env path = (Inr (0, 0, 0), [])"
    by (simp add: bounded_tempo_def)
next
  show "\<exists>r l. bounded_tempo cfg env path = (Inr r, l)"
    by (rule bounded_tempo_returns)
next
  assume "ENABLE_TEMPO cfg \<and> bounded_tempo_try cfg env path = (Inl e, l)"
  then show "bounded_tempo cfg env path = (Inr (0, 0, 0), l)"
    by (simp add: bounded_tempo_outer_except)
next
  assume "ENABLE_TEMPO cfg \<and> import_librosa env Import_tempo = Some e"
  then show "fst (bounded_tempo cfg env path) = Inr (0, 0, 0)"
    by (simp add: bounded_tempo_outer_except [OF _ try_import_fails])
next
  assume "ENABLE_TEMPO cfg \<and> import_librosa env Import_tempo = None
        \<and> load env (tempo_load_req cfg path) = Inl e"
  then show "fst (bounded_tempo cfg env path) = Inr (0, 0, 0)"
    by (simp add: bounded_tempo_outer_except [OF _ try_load_fails])
next
  assume "ENABLE_TEMPO cfg \<and> import_librosa env Import_tempo = None
        \<and> load env (tempo_load_req cfg path) = Inr (Some ys, Some r) \<and> ys \<noteq> [] \<and> r \<noteq> 0
        \<and> beat_track env ys r = Inl e"
  then show "fst (bounded_tempo cfg env path) = Inr (0, 0, 0)"
    by (simp add: bounded_tempo_outer_except [OF _ try_beat_track_fails])
next
  assume a: "ENABLE_TEMPO cfg \<and> import_librosa env Import_tempo = None
        \<and> load env (tempo_load_req cfg path) = Inr (Some ys, Some r) \<and> ys \<noteq> [] \<and> r \<noteq> 0
        \<and> beat_track env ys r = Inr (tempo, beats) \<and> needs_fallback tempo beats
        \<and> (beat_tempo env ys r ''mean'' = Inl e
            \<or> (beat_tempo env ys r ''mean'' = Inr t \<and> import_numpy env = Some e))"
  then have f: "fst (tempo_fallback env ys r tempo) = tempo"
    using tempo_fallback_fails [of env ys r e t tempo] by blast
  from a have "bounded_tempo_try cfg env path
     = (Inr (tempo, len_beats beats, time env Clock_tempo_stop - time env Clock_tempo_start),
        [Call_import_librosa, Call_load (tempo_load_req cfg path), Call_beat_track ys r]
        @ snd (tempo_fallback env ys r tempo))"
    using try_beat_track_ok [of env cfg path ys r tempo beats] f by simp
  with a show "fst (bounded_tempo cfg env path)
        = Inr (tempo, len_beats beats, time env Clock_tempo_stop - time env Clock_tempo_start)"
    by (simp add: bounded_tempo_def try_except_def)
qed

theorem bounded_tempo_degrades_witness:
  "bounded_tempo tempo_off_config ok_env ''/tmp/tmpq3x.wav'' = (Inr (0, 0, 0), [])
   \<and> bounded_tempo default_config no_librosa_env ''/tmp/tmpq3x.wav''
     = (Inr (0, 0, 0), [Call_import_librosa])
   \<and> fst (bounded_tempo default_config load_fails_env ''/tmp/tmpq3x.wav'') = Inr (0, 0, 0)
   \<and> fst (bounded_tempo default_config beat_track_fails_env ''/tmp/tmpq3x.wav'') = Inr (0, 0, 0)
   \<and> fst (bounded_tempo default_config fallback_fails_env ''/tmp/tmpq3x.wav'')
     = Inr (120, 0, 1 / 2)"
proof -
  let ?p = "''/tmp/tmpq3x.wav''"
  let ?ys = "[0, 1 / 2, 0, - 1 / 2] :: real list"
  let ?e = "Exn False ''No module named 'librosa''"
  note th = bounded_tempo_degrades
  have on: "ENABLE_TEMPO default_config" and off: "\<not> ENABLE_TEMPO tempo_off_config"
    by (simp_all add: default_config_def tempo_off_config_def)
  have c1: "bounded_tempo tempo_off_config ok_env ?p = (Inr (0, 0, 0), [])"
    using th [where cfg = tempo_off_config and env = ok_env and path = ?p] off by blast
  have "bounded_tempo_try default_config no_librosa_env ?p = (Inl ?e, [Call_import_librosa])"
    by (simp add: bounded_tempo_try_def comp_defs no_librosa_env_def)
  then have c2: "bounded_tempo default_config no_librosa_env ?p
                 = (Inr (0, 0, 0), [Call_import_librosa])"
    using th [where cfg = default_config and env = no_librosa_env and path = ?p and e = ?e
                and l = "[Call_import_librosa]"] on
    by blast
  have "import_librosa load_fails_env Import_tempo = None
        \<and> load load_fails_env (tempo_load_req default_config ?p) = Inl (Exn False ''NoBackendError'')"
    by (simp add: load_fails_env_def ok_env_def)
  then have c3: "fst (bounded_tempo default_config load_fails_env ?p) = Inr (0, 0, 0)"
    using th [where cfg = default_config and env = load_fails_env and path = ?p
                and e = "Exn False ''NoBackendError''"] on
    by blast
  have "import_librosa beat_track_fails_env Import_tempo = None
        \<and> load beat_track_fails_env (tempo_load_req default_config ?p) = Inr (Some ?ys, Some 22050)
        \<and> ?ys \<noteq> [] \<and> (22050::int) \<noteq> 0
        \<and> beat_track beat_track_fails_env ?ys 22050 = Inl (Exn False ''ParameterError'')"
    by (simp add: beat_track_fails_env_def ok_env_def)
  then have c4: "fst (bounded_tempo default_config beat_track_fails_env ?p) = Inr (0, 0, 0)"
    using th [where cfg = default_config and env = beat_track_fails_env and path = ?p
                and ys = ?ys and r = 22050 and e = "Exn False ''ParameterError''"] on
    by blast
  have "import_librosa fallback_fails_env Import_tempo = None
        \<and> load fallback_fails_env (tempo_load_req default_config ?p) = Inr (Some ?ys, Some 22050)
        \<and> ?ys \<noteq> [] \<and> (22050::int) \<noteq> 0
        \<and> beat_track fallback_fails_env ?ys 22050 = Inr (120, Some [])
        \<and> needs_fallback 120 (Some [])
        \<and> beat_tempo fallback_fails_env ?ys 22050 ''mean''
            = Inl (Exn False ''aggregate must be callable'')"
    by (simp add: fallback_fails_env_def ok_env_def needs_fallback_def)
  then have "fst (bounded_tempo default_config fallback_fails_env ?p)
             = Inr (120, len_beats (Some []),
                    time fallback_fails_env Clock_tempo_stop
                    - time fallback_fails_env Clock_tempo_start)"
    using th [where cfg = default_config and env = fallback_fails_env and path = ?p
                and ys = ?ys and r = 22050 and tempo = 120 and beats = "Some []"
                and e = "Exn False ''aggregate must be callable''"] on
    by blast
  then have c5: "fst (bounded_tempo default_config fallback_fails_env ?p) = Inr (120, 0, 1 / 2)"
    by (simp add: len_beats_def fallback_fails_env_def ok_env_def sample_clock_def)
  from c1 c2 c3 c4 c5 show ?thesis by simp
qed

text \<open>
  C4 as stated fails at the fallback stage: the beat tracker finds a tempo of 120 and
  no beat, the onset-based estimate raises, and the result is \<^verbatim>\<open>(120.0, 0, 0.5)\<close>
  and not \<^verbatim>\<open>(0.0, 0, 0.0)\<close>.
\<close>

theorem bounded_tempo_fallback_counterexample:
  "beat_tempo fallback_fails_env [0, 1 / 2, 0, - 1 / 2] 22050 ''mean''
     = Inl (Exn False ''aggregate must be callable'')
   \<and> bounded_tempo default_config fallback_fails_env ''/tmp/tmpq3x.wav''
     = (Inr (120, 0, 1 / 2),
        [Call_import_librosa, Call_load (tempo_load_req default_config ''/tmp/tmpq3x.wav''),
         Call_beat_track [0, 1 / 2, 0, - 1 / 2] 22050,
         Call_beat_tempo [0, 1 / 2, 0, - 1 / 2] 22050 ''mean''])"
  by (simp add: bounded_tempo_def bounded_tempo_try_def tempo_fallback_def comp_defs
        fallback_fails_env_def ok_env_def default_config_def tempo_load_req_def
        needs_fallback_def len_beats_def sample_clock_def)

text \<open>
  C5. Every decode request in the log of \<^verbatim>\<open>_bounded_tempo\<close> is the one of line 78:
  it names the given path, asks for \<^verbatim>\<open>TEMPO_MAX_SECONDS\<close> of audio (so never for
  more) at the rate \<^verbatim>\<open>TEMPO_SR\<close>, whatever the collaborators return, the file's
  length included. There is at most one such request, and exactly one when the feature
  is enabled and librosa imports.
\<close>

theorem bounded_tempo_decode_request:
  "(Call_load req \<in> set (snd (bounded_tempo cfg env path)) \<longrightarrow>
      req = tempo_load_req cfg path \<and> load_path req = path
      \<and> load_duration req \<le> TEMPO_MAX_SECONDS cfg \<and> load_sr req = Some (TEMPO_SR cfg))
   \<and> length (filter is_load (snd (bounded_tempo cfg env path))) \<le> 1
   \<and> (ENABLE_TEMPO cfg \<and> import_librosa env Import_tempo = None \<longrightarrow>
        filter is_load (snd (bounded_tempo cfg env path)) = [Call_load (tempo_load_req cfg path)])"
proof -
  have log: "snd (bounded_tempo cfg env path)
             = (if ENABLE_TEMPO cfg then snd (bounded_tempo_try cfg env path) else [])"
    by (simp add: bounded_tempo_log) (simp add: bounded_tempo_def)
  have loads: "filter is_load (snd (bounded_tempo cfg env path)) = [] \<or>
        filter is_load (snd (bounded_tempo cfg env path)) = [Call_load (tempo_load_req cfg path)]"
    using bounded_tempo_try_loads [of cfg env path] by (simp add: log)
  have one: "req = tempo_load_req cfg path"
    if m: "Call_load req \<in> set (snd (bounded_tempo cfg env path))"
    using loads mem_filter_cases [OF m, of is_load] by auto
  have three: "ENABLE_TEMPO cfg \<and> import_librosa env Import_tempo = None \<Longrightarrow>
        filter is_load (snd (bounded_tempo cfg env path)) = [Call_load (tempo_load_req cfg path)]"
    by (auto simp: log bounded_tempo_try_def comp_defs Let_def
          split: sum.splits option.splits prod.splits dest: tempo_fallback_no_load_pair)
  show ?thesis
    using one loads three by (auto simp: tempo_load_req_def)
qed


theorem bounded_tempo_decode_request_witness:
  "Call_load (tempo_load_req default_config ''/tmp/tmpq3x.wav'')
     \<in> set (snd (bounded_tempo default_config ok_env ''/tmp/tmpq3x.wav''))
   \<and> load_duration (tempo_load_req default_config ''/tmp/tmpq3x.wav'') \<le> 30
   \<and> load_sr (tempo_load_req default_config ''/tmp/tmpq3x.wav'') = Some 22050
   \<and> filter is_load (snd (bounded_tempo default_config ok_env ''/tmp/tmpq3x.wav''))
     = [Call_load (tempo_load_req default_config ''/tmp/tmpq3x.wav'')]"
proof -
  let ?p = "''/tmp/tmpq3x.wav''"
  note th = bounded_tempo_decode_request [where cfg = default_config and env = ok_env
              and path = ?p and req = "tempo_load_req default_config ?p"]
  have h: "ENABLE_TEMPO default_config \<and> import_librosa ok_env Import_tempo = None"
    by (simp add: default_config_def ok_env_def)
  with th have f: "filter is_load (snd (bounded_tempo default_config ok_env ?p))
                   = [Call_load (tempo_load_req default_config ?p)]"
    by blast
  have "Call_load (tempo_load_req default_config ?p)
        \<in> set (filter is_load (snd (bounded_tempo default_config ok_env ?p)))"
    unfolding f by simp
  then have m: "Call_load (tempo_load_req default_config ?p)
                \<in> set (snd (bounded_tempo default_config ok_env ?p))"
    by simp
  with th have "load_duration (tempo_load_req default_config ?p) \<le> TEMPO_MAX_SECONDS default_config
        \<and> load_sr (tempo_load_req default_config ?p) = Some (TEMPO_SR default_config)"
    by blast
  with m f show ?thesis by (simp add: default_config_def)
qed

section \<open>The pipeline, step by step\<close>

lemma run_duration_eq:
  "fast_duration env tmp_name (lower (snd (splitext key)))
   = (Inr (run_duration env key tmp_name),
      snd (fast_duration env tmp_name (lower (snd (splitext key)))))"
  using fast_duration_returns [of env tmp_name "lower (snd (splitext key))"]
  by (auto simp: run_duration_def)

lemma run_tempo_eq:
  "bounded_tempo cfg env tmp_name
   = (Inr (run_tempo cfg env tmp_name), snd (bounded_tempo cfg env tmp_name))"
  using bounded_tempo_returns [of cfg env tmp_name]
  by (auto simp: run_tempo_def)

lemma pipeline_eq:
  "pipeline cfg env bucket key file_id (time env Clock_t0) tmp_name =
     (case download_file env bucket key tmp_name of
        Some e \<Rightarrow> (Inl e, [Call_download_file bucket key tmp_name])
      | None \<Rightarrow>
          (case put_object env (run_artifact cfg env bucket key tmp_name) of
             Some e \<Rightarrow>
               (Inl e, Call_download_file bucket key tmp_name # extraction_log cfg env key tmp_name
                       @ [Call_put_object (run_artifact cfg env bucket key tmp_name)])
           | None \<Rightarrow>
               (case run_persist cfg env file_id key tmp_name of
                  (Inl e, lp) \<Rightarrow>
                    (Inl e, Call_download_file bucket key tmp_name
                            # extraction_log cfg env key tmp_name
                            @ Call_put_object (run_artifact cfg env bucket key tmp_name) # lp)
                | (Inr u, lp) \<Rightarrow>
                    (Inr (success_dict bucket key (run_analysis cfg env key tmp_name)),
                     Call_download_file bucket key tmp_name
                     # extraction_log cfg env key tmp_name
                     @ Call_put_object (run_artifact cfg env bucket key tmp_name) # lp))))"
proof -
  obtain d m ld where fd:
    "fast_duration env tmp_name (lower (snd (splitext key))) = (Inr (d, m), ld)"
    using fast_duration_returns [of env tmp_name "lower (snd (splitext key))"] by auto
  obtain t b el lt where bt: "bounded_tempo cfg env tmp_name = (Inr (t, b, el), lt)"
    using bounded_tempo_returns [of cfg env tmp_name] by auto
  have rd: "run_duration env key tmp_name = (d, m)"
    by (simp add: run_duration_def fd)
  have rt: "run_tempo cfg env tmp_name = (t, b, el)"
    by (simp add: run_tempo_def bt)
  have xl: "extraction_log cfg env key tmp_name = ld @ lt"
    by (simp add: extraction_log_def fd bt)
  show ?thesis
    unfolding pipeline_def run_artifact_def run_analysis_def run_persist_def rd rt xl
    by (simp add: Let_def fd bt comp_defs split: option.splits sum.splits prod.splits)
qed


lemma audio_not_other:
  "is_audio_call c \<Longrightarrow> \<not> is_put_object c \<and> \<not> is_update_item c \<and> \<not> is_put_item c"
  by (cases c) simp_all

lemma filter_audio_empty:
  assumes "list_all is_audio_call l"
  shows "filter is_put_object l = [] \<and> filter is_update_item l = []
         \<and> filter is_put_item l = [] \<and> filter is_store_call l = []"
  using assms by (induction l) (auto simp: is_store_call_def dest: audio_not_other)

lemma try_mutagen_audio: "list_all is_audio_call (snd (try_mutagen env path ext))"
  by (simp add: try_mutagen_def split: sum.splits)

lemma try_sf_info_audio: "list_all is_audio_call (snd (try_sf_info env path))"
  by (simp add: try_sf_info_log)

lemma try_get_duration_audio: "list_all is_audio_call (snd (try_get_duration env path))"
  by (simp add: try_get_duration_def split: sum.splits option.splits)

lemma try_partial_audio: "list_all is_audio_call (snd (try_partial env path))"
  by (simp add: try_partial_def split: sum.splits option.splits prod.splits)

lemma fast_duration_audio: "list_all is_audio_call (snd (fast_duration env path ext))"
proof -
  obtain r1 l1 where t1: "try_mutagen env path (lower ext) = (r1, l1)"
    by (cases "try_mutagen env path (lower ext)")
  obtain r2 l2 where t2: "try_sf_info env path = (r2, l2)"
    by (cases "try_sf_info env path")
  obtain r3 l3 where t3: "try_get_duration env path = (r3, l3)"
    by (cases "try_get_duration env path")
  obtain r4 l4 where t4: "try_partial env path = (r4, l4)"
    by (cases "try_partial env path")
  have a: "list_all is_audio_call l1" "list_all is_audio_call l2"
          "list_all is_audio_call l3" "list_all is_audio_call l4"
    using try_mutagen_audio [of env path "lower ext"] try_sf_info_audio [of env path]
      try_get_duration_audio [of env path] try_partial_audio [of env path]
    by (simp_all add: t1 t2 t3 t4)
  show ?thesis
    by (cases r1; cases r2; cases r3; cases r4) (simp_all add: fast_duration_def t1 t2 t3 t4 a)
qed

lemma tempo_fallback_audio: "list_all is_audio_call (snd (tempo_fallback env y sr tempo))"
  using tempo_fallback_log [of env y sr tempo] by auto

lemma bounded_tempo_try_audio: "list_all is_audio_call (snd (bounded_tempo_try cfg env path))"
proof (cases "import_librosa env Import_tempo")
  case (Some e)
  then show ?thesis by (simp add: try_import_fails)
next
  case None
  show ?thesis
  proof (cases "load env (tempo_load_req cfg path)")
    case (Inl e)
    with None show ?thesis by (simp add: try_load_fails)
  next
    case (Inr ysr)
    obtain y sr where ysr: "ysr = (y, sr)" by (cases ysr)
    show ?thesis
    proof (cases "y = None \<or> y = Some [] \<or> sr = None \<or> sr = Some 0")
      case True
      with None Inr ysr show ?thesis by (simp add: try_load_empty)
    next
      case False
      then obtain ys r where yr: "y = Some ys" "sr = Some r" "ys \<noteq> []" "r \<noteq> 0" by auto
      show ?thesis
      proof (cases "beat_track env ys r")
        case (Inl e)
        with None Inr ysr yr show ?thesis by (simp add: try_beat_track_fails)
      next
        case (Inr tb)
        obtain tempo beats where "tb = (tempo, beats)" by (cases tb)
        with None \<open>load env (tempo_load_req cfg path) = Inr ysr\<close> ysr yr Inr show ?thesis
          by (simp add: try_beat_track_ok tempo_fallback_audio)
      qed
    qed
  qed
qed

lemma bounded_tempo_audio: "list_all is_audio_call (snd (bounded_tempo cfg env path))"
  using bounded_tempo_try_audio [of cfg env path]
  by (cases "ENABLE_TEMPO cfg") (simp_all add: bounded_tempo_log, simp add: bounded_tempo_def)

lemma extraction_log_audio: "list_all is_audio_call (extraction_log cfg env key tmp_name)"
  by (simp add: extraction_log_def fast_duration_audio bounded_tempo_audio)

lemmas extraction_log_filters = filter_audio_empty [OF extraction_log_audio]

subsection \<open>The metadata step, case by case\<close>

lemma persist_insert:
  "\<not> truthy file_id \<Longrightarrow>
     persist env file_id key d t
     = ((case put_item env (insert_item env key d t) of None \<Rightarrow> Inr () | Some e \<Rightarrow> Inl e),
        [Call_put_item (insert_item env key d t)])"
  by (simp add: persist_def call_unit_def split: option.splits)

lemma persist_update_ok:
  "truthy file_id \<Longrightarrow> update_item env 0 (update_req env file_id d t) = Inr x \<Longrightarrow>
     persist env file_id key d t = (Inr (), [Call_update_item (update_req env file_id d t)])"
  by (simp add: persist_def comp_defs Let_def)

lemma persist_update_other_error:
  "truthy file_id \<Longrightarrow> update_item env 0 (update_req env file_id d t) = Inl e \<Longrightarrow>
   \<not> is_validation_error e \<Longrightarrow>
     persist env file_id key d t = (Inl e, [Call_update_item (update_req env file_id d t)])"
  by (simp add: persist_def comp_defs Let_def)

lemma persist_update_retry:
  "truthy file_id \<Longrightarrow> update_item env 0 (update_req env file_id d t) = Inl e \<Longrightarrow>
   is_validation_error e \<Longrightarrow>
     persist env file_id key d t
     = ((case update_item env 1 (update_req env file_id d t) of
           Inl e2 \<Rightarrow> Inl e2 | Inr x \<Rightarrow> Inr ()),
        [Call_update_item (update_req env file_id d t),
         Call_update_item (update_req env file_id d t)])"
  by (simp add: persist_def comp_defs Let_def split: sum.splits)

lemma persist_update_log:
  "truthy file_id \<Longrightarrow>
     snd (persist env file_id key d t) = [Call_update_item (update_req env file_id d t)]
     \<or> snd (persist env file_id key d t)
        = [Call_update_item (update_req env file_id d t),
           Call_update_item (update_req env file_id d t)]"
  by (cases "update_item env 0 (update_req env file_id d t)";
      cases "is_validation_error (projl (update_item env 0 (update_req env file_id d t)))")
     (simp_all add: persist_update_ok persist_update_other_error persist_update_retry)

subsection \<open>The handler on an event whose bucket and key pass the check\<close>

lemma handler_not_str:
  assumes "truthy (dict_get event ''bucket'')" and "truthy (dict_get event ''key'')"
    and "\<forall>k. dict_get event ''key'' \<noteq> PStr k"
  shows "handler cfg env event
         = (Inr (error_dict (''expected str, bytes or os.PathLike object, not ''
                             @ type_name (dict_get event ''key''))), [])"
  using assms
  by (cases "dict_get event ''key''") (simp_all add: handler_def handler_try_def try_except_def)

lemma handler_tmp_fails:
  assumes "truthy (dict_get event ''bucket'')" and "dict_get event ''key'' = PStr key"
    and "key \<noteq> []" and "NamedTemporaryFile env (snd (splitext key)) = Inl e"
  shows "handler cfg env event
         = (Inr (error_dict (exn_str e)), [Call_NamedTemporaryFile (snd (splitext key))])"
  using assms
  by (simp add: handler_def handler_try_def with_tmp_def try_except_def)

lemma handler_run:
  assumes "truthy (dict_get event ''bucket'')" and "dict_get event ''key'' = PStr key"
    and "key \<noteq> []" and "NamedTemporaryFile env (snd (splitext key)) = Inr tmp_name"
    and "pipeline cfg env (dict_get event ''bucket'') key (dict_get event ''file_id'')
           (time env Clock_t0) tmp_name = (r, l)"
  shows "handler cfg env event
         = ((case tmp_close env tmp_name of
               Some e' \<Rightarrow> Inr (error_dict (exn_str e'))
             | None \<Rightarrow> (case r of Inl e \<Rightarrow> Inr (error_dict (exn_str e)) | Inr d \<Rightarrow> Inr d)),
            Call_NamedTemporaryFile (snd (splitext key)) # l @ [Call_tmp_close tmp_name])"
  using assms
  by (simp add: handler_def handler_try_def with_tmp_def try_except_def
        split: option.splits sum.splits)

lemma handler_returns: "\<exists>d l. handler cfg env event = (Inr d, l)"
proof (cases "\<not> truthy (dict_get event ''bucket'') \<or> \<not> truthy (dict_get event ''key'')")
  case True
  then show ?thesis by (auto simp: handler_def)
next
  case False
  obtain r l where "handler_try cfg env (dict_get event ''bucket'') (dict_get event ''key'')
                      (dict_get event ''file_id'') = (r, l)"
    by (cases "handler_try cfg env (dict_get event ''bucket'') (dict_get event ''key'')
                      (dict_get event ''file_id'')")
  with False show ?thesis
    by (cases r) (auto simp: handler_def try_except_def)
qed

lemma handler_outer_except:
  assumes "truthy (dict_get event ''bucket'')" and "truthy (dict_get event ''key'')"
    and "handler_try cfg env (dict_get event ''bucket'') (dict_get event ''key'')
           (dict_get event ''file_id'') = (Inl e, l)"
  shows "handler cfg env event = (Inr (error_dict (exn_str e)), l)"
  using assms by (simp add: handler_def try_except_def)

lemma handler_download_fails:
  assumes "accepted event key"
    and "NamedTemporaryFile env (snd (splitext key)) = Inr tmp_name"
    and "download_file env (dict_get event ''bucket'') key tmp_name = Some e"
  shows "handler cfg env event
         = (Inr (error_dict (exn_str (case tmp_close env tmp_name of Some e' \<Rightarrow> e' | None \<Rightarrow> e))),
            [Call_NamedTemporaryFile (snd (splitext key)),
             Call_download_file (dict_get event ''bucket'') key tmp_name,
             Call_tmp_close tmp_name])"
proof -
  have "pipeline cfg env (dict_get event ''bucket'') key (dict_get event ''file_id'')
          (time env Clock_t0) tmp_name
        = (Inl e, [Call_download_file (dict_get event ''bucket'') key tmp_name])"
    using assms by (simp add: pipeline_eq)
  from handler_run [OF _ _ _ assms(2) this] assms(1) show ?thesis
    by (simp add: accepted_def split: option.splits)
qed

lemma handler_put_object_fails:
  assumes "accepted event key"
    and "NamedTemporaryFile env (snd (splitext key)) = Inr tmp_name"
    and "download_file env (dict_get event ''bucket'') key tmp_name = None"
    and "put_object env (run_artifact cfg env (dict_get event ''bucket'') key tmp_name) = Some e"
  shows "handler cfg env event
         = (Inr (error_dict (exn_str (case tmp_close env tmp_name of Some e' \<Rightarrow> e' | None \<Rightarrow> e))),
            run_prefix cfg env (dict_get event ''bucket'') key tmp_name @ [Call_tmp_close tmp_name])"
proof -
  have "pipeline cfg env (dict_get event ''bucket'') key (dict_get event ''file_id'')
          (time env Clock_t0) tmp_name
        = (Inl e, Call_download_file (dict_get event ''bucket'') key tmp_name
                  # extraction_log cfg env key tmp_name
                  @ [Call_put_object (run_artifact cfg env (dict_get event ''bucket'') key tmp_name)])"
    using assms by (simp add: pipeline_eq)
  from handler_run [OF _ _ _ assms(2) this] assms(1) show ?thesis
    by (simp add: accepted_def run_prefix_def split: option.splits)
qed

lemma handler_at_persist:
  assumes "accepted event key"
    and "reaches_persist cfg env (dict_get event ''bucket'') key tmp_name"
    and "run_persist cfg env (dict_get event ''file_id'') key tmp_name = (rp, lp)"
  shows "handler cfg env event
         = ((case tmp_close env tmp_name of
               Some e' \<Rightarrow> Inr (error_dict (exn_str e'))
             | None \<Rightarrow>
                 (case rp of
                    Inl e \<Rightarrow> Inr (error_dict (exn_str e))
                  | Inr u \<Rightarrow> Inr (success_dict (dict_get event ''bucket'') key
                                   (run_analysis cfg env key tmp_name)))),
            run_prefix cfg env (dict_get event ''bucket'') key tmp_name @ lp
            @ [Call_tmp_close tmp_name])"
proof -
  have "pipeline cfg env (dict_get event ''bucket'') key (dict_get event ''file_id'')
          (time env Clock_t0) tmp_name
        = ((case rp of Inl e \<Rightarrow> Inl e
            | Inr u \<Rightarrow> Inr (success_dict (dict_get event ''bucket'') key
                             (run_analysis cfg env key tmp_name))),
           Call_download_file (dict_get event ''bucket'') key tmp_name
           # extraction_log cfg env key tmp_name
           @ Call_put_object (run_artifact cfg env (dict_get event ''bucket'') key tmp_name) # lp)"
    using assms by (simp add: pipeline_eq reaches_persist_def split: sum.splits)
  from handler_run [OF _ _ _ _ this] assms(1,2) show ?thesis
    by (simp add: accepted_def reaches_persist_def run_prefix_def split: option.splits sum.splits)
qed


subsection \<open>The sample events\<close>

lemma splitext_abc: "splitext ''uploads/abc.wav'' = (''uploads/abc'', ''.wav'')"
  by (simp add: splitext_def rfind_def)

lemma splitext_foo: "splitext ''uploads/foo.mp3'' = (''uploads/foo'', ''.mp3'')"
  by (simp add: splitext_def rfind_def)

lemma basename_abc: "basename ''uploads/abc.wav'' = ''abc.wav''"
  by (simp add: basename_def rfind_def)

lemma basename_foo: "basename ''uploads/foo.mp3'' = ''foo.mp3''"
  by (simp add: basename_def rfind_def)

lemma accepted_with_id: "accepted event_with_id ''uploads/abc.wav''"
  by (simp add: accepted_def event_with_id_def dict_get_def)

lemma accepted_no_id: "accepted event_no_id ''uploads/foo.mp3''"
  by (simp add: accepted_def event_no_id_def dict_get_def)

lemma accepted_empty_id: "accepted event_empty_id ''uploads/foo.mp3''"
  by (simp add: accepted_def event_empty_id_def dict_get_def)

lemma bucket_with_id: "dict_get event_with_id ''bucket'' = PStr ''test-bucket''"
  by (simp add: event_with_id_def dict_get_def)

lemma file_id_with_id: "dict_get event_with_id ''file_id'' = PStr ''fid-1''"
  by (simp add: event_with_id_def dict_get_def)

lemma key_with_id: "dict_get event_with_id ''key'' = PStr ''uploads/abc.wav''"
  by (simp add: event_with_id_def dict_get_def)

lemma bucket_no_id: "dict_get event_no_id ''bucket'' = PStr ''test-bucket''"
  by (simp add: event_no_id_def dict_get_def)

lemma file_id_no_id: "dict_get event_no_id ''file_id'' = PNone"
  by (simp add: event_no_id_def dict_get_def)

section \<open>The pipeline boundary\<close>

text \<open>
  C1, as the code has it. \<^verbatim>\<open>handler\<close> never raises: it always returns a dictionary.
  Every exception that leaves the body of its \<^verbatim>\<open>try\<close> is returned as
  \<^verbatim>\<open>{"error": str(e)}\<close>: one raised when the scratch file is created or closed, by
  the download, by the artifact write, or by the metadata step (an insert that fails,
  an update that fails with another error than a validation one, a retry that fails).
  Duration extraction and tempo extraction raise nothing: they absorb the exceptions
  of the audio libraries themselves, and the run goes on with the degraded values.
\<close>

theorem handler_never_raises:
  "(\<exists>d l. handler cfg env event = (Inr d, l))
   \<and> (truthy (dict_get event ''bucket'') \<and> truthy (dict_get event ''key'')
       \<and> handler_try cfg env (dict_get event ''bucket'') (dict_get event ''key'')
            (dict_get event ''file_id'') = (Inl e, l) \<longrightarrow>
       handler cfg env event = (Inr (error_dict (exn_str e)), l))
   \<and> (accepted event key \<and> NamedTemporaryFile env (snd (splitext key)) = Inl e \<longrightarrow>
       fst (handler cfg env event) = Inr (error_dict (exn_str e)))
   \<and> (accepted event key \<and> NamedTemporaryFile env (snd (splitext key)) = Inr tmp_name
       \<and> tmp_close env tmp_name = Some e \<longrightarrow>
       fst (handler cfg env event) = Inr (error_dict (exn_str e)))
   \<and> (accepted event key \<and> NamedTemporaryFile env (snd (splitext key)) = Inr tmp_name
       \<and> tmp_close env tmp_name = None
       \<and> download_file env (dict_get event ''bucket'') key tmp_name = Some e \<longrightarrow>
       fst (handler cfg env event) = Inr (error_dict (exn_str e)))
   \<and> (accepted event key \<and> NamedTemporaryFile env (snd (splitext key)) = Inr tmp_name
       \<and> tmp_close env tmp_name = None
       \<and> download_file env (dict_get event ''bucket'') key tmp_name = None
       \<and> put_object env (run_artifact cfg env (dict_get event ''bucket'') key tmp_name) = Some e
       \<longrightarrow> fst (handler cfg env event) = Inr (error_dict (exn_str e)))
   \<and> (accepted event key \<and> reaches_persist cfg env (dict_get event ''bucket'') key tmp_name
       \<and> tmp_close env tmp_name = None
       \<and> fst (run_persist cfg env (dict_get event ''file_id'') key tmp_name) = Inl e \<longrightarrow>
       fst (handler cfg env event) = Inr (error_dict (exn_str e)))
   \<and> fst (fast_duration env path ext) \<noteq> Inl e
   \<and> fst (bounded_tempo cfg env path) \<noteq> Inl e"
proof (intro conjI impI)
  show "\<exists>d l. handler cfg env event = (Inr d, l)"
    by (rule handler_returns)
next
  assume "truthy (dict_get event ''bucket'') \<and> truthy (dict_get event ''key'')
       \<and> handler_try cfg env (dict_get event ''bucket'') (dict_get event ''key'')
            (dict_get event ''file_id'') = (Inl e, l)"
  then show "handler cfg env event = (Inr (error_dict (exn_str e)), l)"
    by (simp add: handler_outer_except)
next
  assume "accepted event key \<and> NamedTemporaryFile env (snd (splitext key)) = Inl e"
  then show "fst (handler cfg env event) = Inr (error_dict (exn_str e))"
    using handler_tmp_fails [of event key env e cfg] by (simp add: accepted_def)
next
  assume a: "accepted event key \<and> NamedTemporaryFile env (snd (splitext key)) = Inr tmp_name
       \<and> tmp_close env tmp_name = Some e"
  obtain r l where "pipeline cfg env (dict_get event ''bucket'') key (dict_get event ''file_id'')
           (time env Clock_t0) tmp_name = (r, l)"
    by (cases "pipeline cfg env (dict_get event ''bucket'') key (dict_get event ''file_id'')
           (time env Clock_t0) tmp_name")
  from handler_run [OF _ _ _ _ this] a
  show "fst (handler cfg env event) = Inr (error_dict (exn_str e))"
    by (simp add: accepted_def)
next
  assume "accepted event key \<and> NamedTemporaryFile env (snd (splitext key)) = Inr tmp_name
       \<and> tmp_close env tmp_name = None
       \<and> download_file env (dict_get event ''bucket'') key tmp_name = Some e"
  then show "fst (handler cfg env event) = Inr (error_dict (exn_str e))"
    using handler_download_fails [of event key env tmp_name e cfg] by simp
next
  assume "accepted event key \<and> NamedTemporaryFile env (snd (splitext key)) = Inr tmp_name
       \<and> tmp_close env tmp_name = None
       \<and> download_file env (dict_get event ''bucket'') key tmp_name = None
       \<and> put_object env (run_artifact cfg env (dict_get event ''bucket'') key tmp_name) = Some e"
  then show "fst (handler cfg env event) = Inr (error_dict (exn_str e))"
    using handler_put_object_fails [of event key env tmp_name cfg e] by simp
next
  assume a: "accepted event key \<and> reaches_persist cfg env (dict_get event ''bucket'') key tmp_name
       \<and> tmp_close env tmp_name = None
       \<and> fst (run_persist cfg env (dict_get event ''file_id'') key tmp_name) = Inl e"
  obtain rp lp where rp: "run_persist cfg env (dict_get event ''file_id'') key tmp_name = (rp, lp)"
    by (cases "run_persist cfg env (dict_get event ''file_id'') key tmp_name")
  from a handler_at_persist [OF _ _ rp]
  show "fst (handler cfg env event) = Inr (error_dict (exn_str e))"
    by (simp add: rp)
next
  show "fst (fast_duration env path ext) \<noteq> Inl e"
    using fast_duration_returns [of env path ext] by auto
next
  show "fst (bounded_tempo cfg env path) \<noteq> Inl e"
    using bounded_tempo_returns [of cfg env path] by auto
qed


theorem handler_never_raises_witness:
  "handler default_config tmp_fails_env event_with_id
     = (Inr (error_dict ''No space left on device''), [Call_NamedTemporaryFile ''.wav''])
   \<and> fst (handler default_config close_fails_env event_with_id)
     = Inr (error_dict ''No such file or directory'')
   \<and> fst (handler default_config download_fails_env event_with_id) = Inr (error_dict ''Not Found'')
   \<and> fst (handler default_config put_object_fails_env event_with_id)
     = Inr (error_dict ''Access Denied'')
   \<and> fst (handler default_config put_item_fails_env event_no_id)
     = Inr (error_dict ''Requested resource not found'')"
proof -
  let ?k = "''uploads/abc.wav''" and ?n = "''/tmp/tmpq3x.wav''"
  let ?k' = "''uploads/foo.mp3''" and ?n' = "''/tmp/tmpq3x.mp3''"
  note th = handler_never_raises
  have h1: "truthy (dict_get event_with_id ''bucket'') \<and> truthy (dict_get event_with_id ''key'')
        \<and> handler_try default_config tmp_fails_env (dict_get event_with_id ''bucket'')
             (dict_get event_with_id ''key'') (dict_get event_with_id ''file_id'')
            = (Inl (Exn False ''No space left on device''), [Call_NamedTemporaryFile ''.wav''])"
    by (simp add: bucket_with_id key_with_id handler_try_def with_tmp_def splitext_abc
          tmp_fails_env_def)
  have c1: "handler default_config tmp_fails_env event_with_id
     = (Inr (error_dict (exn_str (Exn False ''No space left on device''))),
        [Call_NamedTemporaryFile ''.wav''])"
    using th [where cfg = default_config and env = tmp_fails_env and event = event_with_id
                and e = "Exn False ''No space left on device''"
                and l = "[Call_NamedTemporaryFile ''.wav'']"] h1
    by blast
  have h2: "accepted event_with_id ?k
        \<and> NamedTemporaryFile tmp_fails_env (snd (splitext ?k))
          = Inl (Exn False ''No space left on device'')"
    by (simp add: accepted_with_id tmp_fails_env_def)
  have c2: "fst (handler default_config tmp_fails_env event_with_id)
            = Inr (error_dict (exn_str (Exn False ''No space left on device'')))"
    using th [where cfg = default_config and env = tmp_fails_env and event = event_with_id
                and key = ?k and e = "Exn False ''No space left on device''"] h2
    by blast
  have h3: "accepted event_with_id ?k
        \<and> NamedTemporaryFile close_fails_env (snd (splitext ?k)) = Inr ?n
        \<and> tmp_close close_fails_env ?n = Some (Exn False ''No such file or directory'')"
    by (simp add: accepted_with_id close_fails_env_def ok_env_def splitext_abc)
  have c3: "fst (handler default_config close_fails_env event_with_id)
            = Inr (error_dict (exn_str (Exn False ''No such file or directory'')))"
    using th [where cfg = default_config and env = close_fails_env and event = event_with_id
                and key = ?k and tmp_name = ?n and e = "Exn False ''No such file or directory''"] h3
    by blast
  have h4: "accepted event_with_id ?k
        \<and> NamedTemporaryFile download_fails_env (snd (splitext ?k)) = Inr ?n
        \<and> tmp_close download_fails_env ?n = None
        \<and> download_file download_fails_env (dict_get event_with_id ''bucket'') ?k ?n
          = Some (Exn True ''Not Found'')"
    by (simp add: accepted_with_id download_fails_env_def ok_env_def splitext_abc)
  have c4: "fst (handler default_config download_fails_env event_with_id)
            = Inr (error_dict (exn_str (Exn True ''Not Found'')))"
    using th [where cfg = default_config and env = download_fails_env and event = event_with_id
                and key = ?k and tmp_name = ?n and e = "Exn True ''Not Found''"] h4
    by blast
  have h5: "accepted event_with_id ?k
        \<and> NamedTemporaryFile put_object_fails_env (snd (splitext ?k)) = Inr ?n
        \<and> tmp_close put_object_fails_env ?n = None
        \<and> download_file put_object_fails_env (dict_get event_with_id ''bucket'') ?k ?n = None
        \<and> put_object put_object_fails_env
             (run_artifact default_config put_object_fails_env (dict_get event_with_id ''bucket'')
                ?k ?n)
           = Some (Exn True ''Access Denied'')"
    by (simp add: accepted_with_id put_object_fails_env_def ok_env_def splitext_abc)
  have c5: "fst (handler default_config put_object_fails_env event_with_id)
            = Inr (error_dict (exn_str (Exn True ''Access Denied'')))"
    using th [where cfg = default_config and env = put_object_fails_env
                and event = event_with_id and key = ?k and tmp_name = ?n
                and e = "Exn True ''Access Denied''"] h5
    by blast
  have h6: "accepted event_no_id ?k'
        \<and> reaches_persist default_config put_item_fails_env (dict_get event_no_id ''bucket'') ?k' ?n'
        \<and> tmp_close put_item_fails_env ?n' = None
        \<and> fst (run_persist default_config put_item_fails_env (dict_get event_no_id ''file_id'')
                  ?k' ?n')
           = Inl (Exn True ''Requested resource not found'')"
    by (simp add: accepted_no_id reaches_persist_def run_persist_def file_id_no_id persist_insert
          put_item_fails_env_def ok_env_def splitext_foo)
  have c6: "fst (handler default_config put_item_fails_env event_no_id)
            = Inr (error_dict (exn_str (Exn True ''Requested resource not found'')))"
    using th [where cfg = default_config and env = put_item_fails_env and event = event_no_id
                and key = ?k' and tmp_name = ?n'
                and e = "Exn True ''Requested resource not found''"] h6
    by blast
  from c1 c3 c4 c5 c6 show ?thesis by simp
qed


section \<open>The metadata step of a run\<close>

lemma run_prefix_filters:
  "filter is_store_call (run_prefix cfg env bucket key tmp_name) = []"
  "filter is_update_item (run_prefix cfg env bucket key tmp_name) = []"
  "filter is_put_item (run_prefix cfg env bucket key tmp_name) = []"
  "filter is_put_object (run_prefix cfg env bucket key tmp_name)
   = [Call_put_object (run_artifact cfg env bucket key tmp_name)]"
  by (simp_all add: run_prefix_def extraction_log_filters is_store_call_def)

lemma persist_store_calls:
  "filter is_store_call (snd (persist env file_id key d t)) = snd (persist env file_id key d t)"
  "filter is_put_object (snd (persist env file_id key d t)) = []"
  using persist_update_log [of file_id env key d t]
  by (cases "truthy file_id"; auto simp: persist_insert is_store_call_def)+

lemma persist_kind:
  "truthy file_id \<Longrightarrow> filter is_put_item (snd (persist env file_id key d t)) = []"
  "\<not> truthy file_id \<Longrightarrow> filter is_update_item (snd (persist env file_id key d t)) = []"
  using persist_update_log [of file_id env key d t]
  by (auto simp: persist_insert)

lemma handler_log_at_persist:
  assumes "accepted event key"
    and "reaches_persist cfg env (dict_get event ''bucket'') key tmp_name"
  shows "snd (handler cfg env event)
         = run_prefix cfg env (dict_get event ''bucket'') key tmp_name
           @ snd (run_persist cfg env (dict_get event ''file_id'') key tmp_name)
           @ [Call_tmp_close tmp_name]"
proof -
  obtain rp lp where rp: "run_persist cfg env (dict_get event ''file_id'') key tmp_name = (rp, lp)"
    by (cases "run_persist cfg env (dict_get event ''file_id'') key tmp_name")
  from handler_at_persist [OF assms rp] show ?thesis
    by (simp add: rp)
qed

lemma handler_store_calls_at_persist:
  assumes "accepted event key"
    and "reaches_persist cfg env (dict_get event ''bucket'') key tmp_name"
  shows "filter is_store_call (snd (handler cfg env event))
         = snd (run_persist cfg env (dict_get event ''file_id'') key tmp_name)"
  by (simp add: handler_log_at_persist [OF assms] run_prefix_filters run_persist_def
        persist_store_calls is_store_call_def)

lemma handler_log_cases:
  assumes "accepted event key"
  shows "filter is_store_call (snd (handler cfg env event)) = []
         \<and> filter is_update_item (snd (handler cfg env event)) = []
         \<and> filter is_put_item (snd (handler cfg env event)) = []
         \<or> (\<exists>tmp_name. reaches_persist cfg env (dict_get event ''bucket'') key tmp_name)"
proof (cases "NamedTemporaryFile env (snd (splitext key))")
  case (Inl e)
  with assms handler_tmp_fails [of event key env e cfg] show ?thesis
    by (simp add: accepted_def is_store_call_def)
next
  case (Inr tmp_name)
  show ?thesis
  proof (cases "download_file env (dict_get event ''bucket'') key tmp_name")
    case (Some e)
    with assms Inr handler_download_fails [of event key env tmp_name e cfg] show ?thesis
      by (simp add: is_store_call_def)
  next
    case None
    show ?thesis
    proof (cases "put_object env (run_artifact cfg env (dict_get event ''bucket'') key tmp_name)")
      case (Some e)
      with assms Inr None handler_put_object_fails [of event key env tmp_name cfg e]
      show ?thesis
        by (simp add: run_prefix_filters is_store_call_def)
    next
      case None': None
      with Inr None have "reaches_persist cfg env (dict_get event ''bucket'') key tmp_name"
        by (simp add: reaches_persist_def)
      then show ?thesis by blast
    qed
  qed
qed


lemma handler_error_at_persist:
  assumes "accepted event key"
    and "reaches_persist cfg env (dict_get event ''bucket'') key tmp_name"
    and "fst (run_persist cfg env (dict_get event ''file_id'') key tmp_name) = Inl e"
  shows "(\<exists>msg. fst (handler cfg env event) = Inr (error_dict msg))
         \<and> (tmp_close env tmp_name = None \<longrightarrow>
              fst (handler cfg env event) = Inr (error_dict (exn_str e)))"
proof -
  obtain rp lp where rp: "run_persist cfg env (dict_get event ''file_id'') key tmp_name = (rp, lp)"
    by (cases "run_persist cfg env (dict_get event ''file_id'') key tmp_name")
  from handler_at_persist [OF assms(1,2) rp] assms(3) show ?thesis
    by (cases "tmp_close env tmp_name") (auto simp: rp)
qed

lemma sample_analyzed_at: "analyzed_at_value (utc_now ok_env) = ''2025-03-09T14:05:07.120034Z''"
  by (simp add: analyzed_at_value_def isoformat_def isoformat_naive_def ok_env_def digit_char_def
        digits2_def digits4_def digits6_def)

text \<open>
  A run on \<open>event_with_id\<close> with collaborators that differ from the sample ones in the
  metadata table only.
\<close>

lemma sample_run_with_id:
  assumes "env = ok_env\<lparr>update_item := u\<rparr>"
  shows "reaches_persist default_config env (dict_get event_with_id ''bucket'')
           ''uploads/abc.wav'' ''/tmp/tmpq3x.wav''"
    and "tmp_close env ''/tmp/tmpq3x.wav'' = None"
    and "run_update default_config env (dict_get event_with_id ''file_id'')
           ''uploads/abc.wav'' ''/tmp/tmpq3x.wav'' = sample_pipeline_update"
    and "update_item env = u"
    and "run_analysis default_config env ''uploads/abc.wav'' ''/tmp/tmpq3x.wav''
         = analysis_dict default_config (7 / 2) 120 3 ''soundfile.info'' 1 1 (1 / 2)"
proof -
  let ?k = "''uploads/abc.wav''" and ?n = "''/tmp/tmpq3x.wav''"
  have lw: "lower ''.wav'' = ''.wav''"
    by (simp add: lower_def lower_char_def)
  have fd: "fast_duration env ?n ''.wav'' = (Inr (7 / 2, ''soundfile.info''), [Call_sf_info ?n])"
    by (simp add: assms fast_duration_def try_mutagen_def try_sf_info_def ok_env_def lw)
  have bt: "fst (bounded_tempo default_config env ?n) = Inr (120, 3, 1 / 2)"
    by (simp add: assms bounded_tempo_def bounded_tempo_try_def comp_defs
          ok_env_def default_config_def tempo_load_req_def needs_fallback_def len_beats_def
          sample_clock_def)
  have rd: "run_duration env ?k ?n = (7 / 2, ''soundfile.info'')"
    by (simp add: run_duration_def splitext_abc lw fd)
  have rt: "run_tempo default_config env ?n = (120, 3, 1 / 2)"
    by (simp add: run_tempo_def bt)
  show "reaches_persist default_config env (dict_get event_with_id ''bucket'') ?k ?n"
    by (simp add: reaches_persist_def assms ok_env_def splitext_abc)
  show "tmp_close env ?n = None"
    by (simp add: assms ok_env_def)
  have "float_str env = sample_float_str" "utc_now env = utc_now ok_env"
    by (simp_all add: assms ok_env_def)
  then show "run_update default_config env (dict_get event_with_id ''file_id'') ?k ?n
             = sample_pipeline_update"
    by (simp add: run_update_def rd rt update_req_def file_id_with_id sample_analyzed_at
          sample_float_str_def sample_pipeline_update_def)
  show "update_item env = u"
    by (simp add: assms)
  have "time env = sample_clock"
    by (simp add: assms ok_env_def)
  then show "run_analysis default_config env ?k ?n
             = analysis_dict default_config (7 / 2) 120 3 ''soundfile.info'' 1 1 (1 / 2)"
    by (simp add: run_analysis_def rd rt sample_clock_def)
qed

subsection \<open>Exceptions that do not reach the boundary\<close>

text \<open>
  C1 as stated fails in two ways. An exception raised during metadata persistence need
  not become an error result: the first \<^verbatim>\<open>update_item\<close> raises a validation error,
  the inner handler retries, the retry succeeds and \<^verbatim>\<open>handler\<close> returns the success
  dictionary. Nor does an exception raised during duration extraction: the MP3 header
  parse raises, \<^verbatim>\<open>_fast_duration\<close> swallows the exception and takes the duration from
  \<^verbatim>\<open>soundfile.info\<close>, and \<^verbatim>\<open>handler\<close> returns the success dictionary.
\<close>

theorem handler_absorbs_counterexample:
  "update_item update_validation_env 0 sample_pipeline_update
     = Inl (Exn True ''ValidationException: bad expression'')
   \<and> filter is_store_call (snd (handler default_config update_validation_env event_with_id))
     = [Call_update_item sample_pipeline_update, Call_update_item sample_pipeline_update]
   \<and> fst (handler default_config update_validation_env event_with_id)
     = Inr (success_dict (PStr ''test-bucket'') ''uploads/abc.wav''
              (analysis_dict default_config (7 / 2) 120 3 ''soundfile.info'' 1 1 (1 / 2)))
   \<and> MutagenMP3_length mutagen_fails_env ''/tmp/tmpq3x.mp3''
     = Inl (Exn False ''can't sync to MPEG frame'')
   \<and> handler default_config mutagen_fails_env event_no_id
     = (Inr (success_dict (PStr ''test-bucket'') ''uploads/foo.mp3''
               (analysis_dict default_config (7 / 2) 120 3 ''soundfile.info'' 1 1 (1 / 2))),
        [Call_NamedTemporaryFile ''.mp3'',
         Call_download_file (PStr ''test-bucket'') ''uploads/foo.mp3'' ''/tmp/tmpq3x.mp3'',
         Call_MutagenMP3 ''/tmp/tmpq3x.mp3'', Call_sf_info ''/tmp/tmpq3x.mp3'',
         Call_import_librosa,
         Call_load (tempo_load_req default_config ''/tmp/tmpq3x.mp3''),
         Call_beat_track [0, 1 / 2, 0, - 1 / 2] 22050,
         Call_put_object
           (artifact_req default_config mutagen_fails_env (PStr ''test-bucket'') ''uploads/foo.mp3''
              (analysis_dict default_config (7 / 2) 120 3 ''soundfile.info'' 1 1 (1 / 2))),
         Call_put_item (insert_item mutagen_fails_env ''uploads/foo.mp3'' (7 / 2) 120),
         Call_tmp_close ''/tmp/tmpq3x.mp3''])"
proof -
  let ?k = "''uploads/foo.mp3''" and ?n = "''/tmp/tmpq3x.mp3''"
  have m: "MutagenMP3_length mutagen_fails_env ?n = Inl (Exn False ''can't sync to MPEG frame'')"
    by (simp add: mutagen_fails_env_def)
  have fd: "fast_duration mutagen_fails_env ?n ''.mp3''
            = (Inr (7 / 2, ''soundfile.info''), [Call_MutagenMP3 ?n, Call_sf_info ?n])"
    by (simp add: fast_duration_def try_mutagen_def try_sf_info_def mutagen_fails_env_def
          ok_env_def lower_def lower_char_def)
  have bt: "bounded_tempo default_config mutagen_fails_env ?n
            = (Inr (120, 3, 1 / 2),
               [Call_import_librosa, Call_load (tempo_load_req default_config ?n),
                Call_beat_track [0, 1 / 2, 0, - 1 / 2] 22050])"
    by (simp add: bounded_tempo_def bounded_tempo_try_def comp_defs mutagen_fails_env_def
          ok_env_def default_config_def tempo_load_req_def needs_fallback_def len_beats_def
          sample_clock_def)
  have lw: "lower ''.mp3'' = ''.mp3''"
    by (simp add: lower_def lower_char_def)
  have rd: "run_duration mutagen_fails_env ?k ?n = (7 / 2, ''soundfile.info'')"
    by (simp add: run_duration_def splitext_foo lw fd)
  have rt: "run_tempo default_config mutagen_fails_env ?n = (120, 3, 1 / 2)"
    by (simp add: run_tempo_def bt)
  have xl: "extraction_log default_config mutagen_fails_env ?k ?n
            = [Call_MutagenMP3 ?n, Call_sf_info ?n, Call_import_librosa,
               Call_load (tempo_load_req default_config ?n),
               Call_beat_track [0, 1 / 2, 0, - 1 / 2] 22050]"
    by (simp add: extraction_log_def splitext_foo lw fd bt)
  have tm: "time mutagen_fails_env = sample_clock"
    by (simp add: mutagen_fails_env_def ok_env_def)
  have pi: "put_item mutagen_fails_env = (\<lambda>item. None)"
    by (simp add: mutagen_fails_env_def ok_env_def)
  have ra: "run_analysis default_config mutagen_fails_env ?k ?n
            = analysis_dict default_config (7 / 2) 120 3 ''soundfile.info'' 1 1 (1 / 2)"
    by (simp add: run_analysis_def rd rt tm sample_clock_def)
  have rp: "reaches_persist default_config mutagen_fails_env (dict_get event_no_id ''bucket'') ?k ?n"
    by (simp add: reaches_persist_def mutagen_fails_env_def ok_env_def splitext_foo)
  have ps: "run_persist default_config mutagen_fails_env (dict_get event_no_id ''file_id'') ?k ?n
            = (Inr (), [Call_put_item (insert_item mutagen_fails_env ?k (7 / 2) 120)])"
    by (simp add: run_persist_def file_id_no_id persist_insert rd rt pi)
  have cl: "tmp_close mutagen_fails_env ?n = None"
    by (simp add: mutagen_fails_env_def ok_env_def)
  from handler_at_persist [OF accepted_no_id rp ps]
  have second: "handler default_config mutagen_fails_env event_no_id
     = (Inr (success_dict (PStr ''test-bucket'') ?k
               (analysis_dict default_config (7 / 2) 120 3 ''soundfile.info'' 1 1 (1 / 2))),
        [Call_NamedTemporaryFile ''.mp3'',
         Call_download_file (PStr ''test-bucket'') ?k ?n,
         Call_MutagenMP3 ?n, Call_sf_info ?n, Call_import_librosa,
         Call_load (tempo_load_req default_config ?n),
         Call_beat_track [0, 1 / 2, 0, - 1 / 2] 22050,
         Call_put_object
           (artifact_req default_config mutagen_fails_env (PStr ''test-bucket'') ?k
              (analysis_dict default_config (7 / 2) 120 3 ''soundfile.info'' 1 1 (1 / 2))),
         Call_put_item (insert_item mutagen_fails_env ?k (7 / 2) 120),
         Call_tmp_close ?n])"
    by (simp add: cl ra xl run_prefix_def run_artifact_def bucket_no_id splitext_foo)
  let ?v = "Exn True ''ValidationException: bad expression''"
  note r = sample_run_with_id [OF update_validation_env_def]
  have t: "truthy (dict_get event_with_id ''file_id'')"
    by (simp add: file_id_with_id)
  have u0: "update_item update_validation_env 0 sample_pipeline_update = Inl ?v"
    by (simp add: r(4))
  have val: "is_validation_error ?v"
    by (simp add: is_validation_error_def)
  have p: "run_persist default_config update_validation_env (dict_get event_with_id ''file_id'')
             ''uploads/abc.wav'' ''/tmp/tmpq3x.wav''
           = (Inr (), [Call_update_item sample_pipeline_update,
                       Call_update_item sample_pipeline_update])"
    using persist_update_retry [OF t, of update_validation_env _ _ ?v] u0 val r(3)
    by (simp add: run_persist_def run_update_def r(4))
  have calls: "filter is_store_call
                 (snd (handler default_config update_validation_env event_with_id))
               = [Call_update_item sample_pipeline_update, Call_update_item sample_pipeline_update]"
    by (simp add: handler_store_calls_at_persist [OF accepted_with_id r(1)] p)
  have first: "fst (handler default_config update_validation_env event_with_id)
     = Inr (success_dict (PStr ''test-bucket'') ''uploads/abc.wav''
              (analysis_dict default_config (7 / 2) 120 3 ''soundfile.info'' 1 1 (1 / 2)))"
    using handler_at_persist [OF accepted_with_id r(1) p]
    by (simp add: r(2) r(5) bucket_with_id)
  from u0 calls first m second show ?thesis by simp
qed


subsection \<open>The retry\<close>

text \<open>
  C7. On a run that reaches the metadata step with a truthy file id: when the first
  \<^verbatim>\<open>update_item\<close> raises an exception whose text contains \<^verbatim>\<open>ValidationException\<close>
  or \<^verbatim>\<open>reserved keyword\<close> (the code's test for a naming or validation error), the
  calls to the table are exactly two, both with the same request (key, update
  expression, attribute names, attribute values); the outcome of the step is that of
  the retry, and a failure of the retry leaves the step and is returned as an error
  result. Any other exception of the first attempt leaves the step after that one call
  and is returned as an error result. The error result carries the text of that
  exception when closing the scratch file does not raise.
\<close>

theorem update_retried_once:
  assumes "accepted event key" and "truthy (dict_get event ''file_id'')"
    and "reaches_persist cfg env (dict_get event ''bucket'') key tmp_name"
  shows
  "(update_item env 0 (run_update cfg env (dict_get event ''file_id'') key tmp_name) = Inl e1
    \<and> is_validation_error e1 \<longrightarrow>
      filter is_store_call (snd (handler cfg env event))
      = [Call_update_item (run_update cfg env (dict_get event ''file_id'') key tmp_name),
         Call_update_item (run_update cfg env (dict_get event ''file_id'') key tmp_name)]
      \<and> fst (run_persist cfg env (dict_get event ''file_id'') key tmp_name)
        = (case update_item env 1 (run_update cfg env (dict_get event ''file_id'') key tmp_name) of
             Inl e2 \<Rightarrow> Inl e2 | Inr x \<Rightarrow> Inr ()))
   \<and> (update_item env 0 (run_update cfg env (dict_get event ''file_id'') key tmp_name) = Inl e1
      \<and> is_validation_error e1
      \<and> update_item env 1 (run_update cfg env (dict_get event ''file_id'') key tmp_name) = Inl e2
      \<longrightarrow>
      fst (run_persist cfg env (dict_get event ''file_id'') key tmp_name) = Inl e2
      \<and> (\<exists>msg. fst (handler cfg env event) = Inr (error_dict msg))
      \<and> (tmp_close env tmp_name = None \<longrightarrow>
           fst (handler cfg env event) = Inr (error_dict (exn_str e2))))
   \<and> (update_item env 0 (run_update cfg env (dict_get event ''file_id'') key tmp_name) = Inl e1
      \<and> \<not> is_validation_error e1 \<longrightarrow>
      filter is_store_call (snd (handler cfg env event))
      = [Call_update_item (run_update cfg env (dict_get event ''file_id'') key tmp_name)]
      \<and> fst (run_persist cfg env (dict_get event ''file_id'') key tmp_name) = Inl e1
      \<and> (\<exists>msg. fst (handler cfg env event) = Inr (error_dict msg))
      \<and> (tmp_close env tmp_name = None \<longrightarrow>
           fst (handler cfg env event) = Inr (error_dict (exn_str e1))))"
proof -
  let ?fid = "dict_get event ''file_id''"
  let ?U = "run_update cfg env ?fid key tmp_name"
  let ?P = "run_persist cfg env ?fid key tmp_name"
  note calls = handler_store_calls_at_persist [OF assms(1,3)]
  have retry: "?P = ((case update_item env 1 ?U of Inl e2 \<Rightarrow> Inl e2 | Inr x \<Rightarrow> Inr ()),
                     [Call_update_item ?U, Call_update_item ?U])"
    if "update_item env 0 ?U = Inl e1" "is_validation_error e1"
    using that assms(2) persist_update_retry [of ?fid env _ _ e1 key]
    by (simp add: run_persist_def run_update_def)
  have other: "?P = (Inl e1, [Call_update_item ?U])"
    if "update_item env 0 ?U = Inl e1" "\<not> is_validation_error e1"
    using that assms(2) persist_update_other_error [of ?fid env _ _ e1 key]
    by (simp add: run_persist_def run_update_def)
  show ?thesis
  proof (intro conjI impI)
    assume a: "update_item env 0 ?U = Inl e1 \<and> is_validation_error e1"
    then show "filter is_store_call (snd (handler cfg env event))
               = [Call_update_item ?U, Call_update_item ?U]"
      using retry by (simp add: calls)
    from a show "fst ?P = (case update_item env 1 ?U of Inl e2 \<Rightarrow> Inl e2 | Inr x \<Rightarrow> Inr ())"
      using retry by simp
  next
    assume a: "update_item env 0 ?U = Inl e1 \<and> is_validation_error e1
               \<and> update_item env 1 ?U = Inl e2"
    then have p: "fst ?P = Inl e2"
      using retry by simp
    then show "fst ?P = Inl e2" .
    from handler_error_at_persist [OF assms(1,3) p]
    show "\<exists>msg. fst (handler cfg env event) = Inr (error_dict msg)" by blast
    assume "tmp_close env tmp_name = None"
    with handler_error_at_persist [OF assms(1,3) p]
    show "fst (handler cfg env event) = Inr (error_dict (exn_str e2))" by blast
  next
    assume a: "update_item env 0 ?U = Inl e1 \<and> \<not> is_validation_error e1"
    then show "filter is_store_call (snd (handler cfg env event)) = [Call_update_item ?U]"
      using other by (simp add: calls)
    from a have p: "fst ?P = Inl e1"
      using other by simp
    then show "fst ?P = Inl e1" .
    from handler_error_at_persist [OF assms(1,3) p]
    show "\<exists>msg. fst (handler cfg env event) = Inr (error_dict msg)" by blast
    assume "tmp_close env tmp_name = None"
    with handler_error_at_persist [OF assms(1,3) p]
    show "fst (handler cfg env event) = Inr (error_dict (exn_str e1))" by blast
  qed
qed


theorem update_retried_once_witness:
  "filter is_store_call (snd (handler default_config update_validation_env event_with_id))
     = [Call_update_item sample_pipeline_update, Call_update_item sample_pipeline_update]
   \<and> filter is_store_call (snd (handler default_config update_validation_twice_env event_with_id))
     = [Call_update_item sample_pipeline_update, Call_update_item sample_pipeline_update]
   \<and> fst (handler default_config update_validation_twice_env event_with_id)
     = Inr (error_dict ''ValidationException: still bad'')
   \<and> filter is_store_call (snd (handler default_config update_throttled_env event_with_id))
     = [Call_update_item sample_pipeline_update]
   \<and> fst (handler default_config update_throttled_env event_with_id)
     = Inr (error_dict ''Throughput exceeded'')"
proof -
  let ?k = "''uploads/abc.wav''" and ?n = "''/tmp/tmpq3x.wav''"
  let ?v = "Exn True ''ValidationException: bad expression''"
  let ?v2 = "Exn True ''ValidationException: still bad''"
  let ?t = "Exn True ''Throughput exceeded''"
  have t: "truthy (dict_get event_with_id ''file_id'')"
    by (simp add: file_id_with_id)
  have val: "is_validation_error ?v" and nval: "\<not> is_validation_error ?t"
    by (simp_all add: is_validation_error_def)
  note r1 = sample_run_with_id [OF update_validation_env_def]
  note r2 = sample_run_with_id [OF update_validation_twice_env_def]
  note r3 = sample_run_with_id [OF update_throttled_env_def]
  have c1: "filter is_store_call (snd (handler default_config update_validation_env event_with_id))
     = [Call_update_item sample_pipeline_update, Call_update_item sample_pipeline_update]"
    using update_retried_once [OF accepted_with_id t r1(1), where ?e1.0 = ?v] val
    by (simp add: r1)
  have c2: "filter is_store_call
              (snd (handler default_config update_validation_twice_env event_with_id))
            = [Call_update_item sample_pipeline_update, Call_update_item sample_pipeline_update]
     \<and> fst (handler default_config update_validation_twice_env event_with_id)
       = Inr (error_dict (exn_str ?v2))"
    using update_retried_once [OF accepted_with_id t r2(1), where ?e1.0 = ?v and ?e2.0 = ?v2] val
    by (simp add: r2)
  have c3: "filter is_store_call (snd (handler default_config update_throttled_env event_with_id))
            = [Call_update_item sample_pipeline_update]
     \<and> fst (handler default_config update_throttled_env event_with_id)
       = Inr (error_dict (exn_str ?t))"
    using update_retried_once [OF accepted_with_id t r3(1), where ?e1.0 = ?t] nval
    by (simp add: r3)
  from c1 c2 c3 show ?thesis by simp
qed

section \<open>Update or insert\<close>

lemma accepted_key_unique: "accepted event key \<Longrightarrow> accepted event key' \<Longrightarrow> key' = key"
  by (simp add: accepted_def)

lemma handler_kind_of_store_calls:
  assumes "accepted event key"
  shows "(truthy (dict_get event ''file_id'') \<longrightarrow>
            filter is_put_item (snd (handler cfg env event)) = [])
         \<and> (\<not> truthy (dict_get event ''file_id'') \<longrightarrow>
            filter is_update_item (snd (handler cfg env event)) = [])"
proof (cases "\<exists>tmp_name. reaches_persist cfg env (dict_get event ''bucket'') key tmp_name")
  case True
  then obtain tmp_name where r: "reaches_persist cfg env (dict_get event ''bucket'') key tmp_name"
    by blast
  show ?thesis
    by (simp add: handler_log_at_persist [OF assms r] run_prefix_filters run_persist_def
          persist_kind)
next
  case False
  with handler_log_cases [OF assms, of cfg env] show ?thesis by simp
qed

text \<open>A run on the key \<^verbatim>\<open>uploads/foo.mp3\<close> with the sample collaborators.\<close>

lemma sample_run_foo:
  assumes "dict_get event ''bucket'' = PStr ''test-bucket''"
  shows "reaches_persist default_config ok_env (dict_get event ''bucket'')
           ''uploads/foo.mp3'' ''/tmp/tmpq3x.mp3''"
    and "run_insert default_config ok_env ''uploads/foo.mp3'' ''/tmp/tmpq3x.mp3''
         = sample_pipeline_insert"
proof -
  let ?k = "''uploads/foo.mp3''" and ?n = "''/tmp/tmpq3x.mp3''"
  have lw: "lower ''.mp3'' = ''.mp3''"
    by (simp add: lower_def lower_char_def)
  have fd: "fst (fast_duration ok_env ?n ''.mp3'') = Inr (2, ''mutagen'')"
    by (simp add: fast_duration_def try_mutagen_def ok_env_def lw)
  have bt: "fst (bounded_tempo default_config ok_env ?n) = Inr (120, 3, 1 / 2)"
    by (simp add: bounded_tempo_def bounded_tempo_try_def comp_defs
          ok_env_def default_config_def tempo_load_req_def needs_fallback_def len_beats_def
          sample_clock_def)
  have rd: "run_duration ok_env ?k ?n = (2, ''mutagen'')"
    by (simp add: run_duration_def splitext_foo lw fd)
  have rt: "run_tempo default_config ok_env ?n = (120, 3, 1 / 2)"
    by (simp add: run_tempo_def bt)
  show "reaches_persist default_config ok_env (dict_get event ''bucket'') ?k ?n"
    by (simp add: reaches_persist_def ok_env_def splitext_foo)
  have "float_str ok_env = sample_float_str"
    by (simp add: ok_env_def)
  then show "run_insert default_config ok_env ?k ?n = sample_pipeline_insert"
    by (simp add: run_insert_def rd rt insert_item_def basename_foo sample_float_str_def
          sample_pipeline_insert_def)
qed

lemma bucket_empty_id: "dict_get event_empty_id ''bucket'' = PStr ''test-bucket''"
  by (simp add: event_empty_id_def dict_get_def)

lemma file_id_empty_id: "dict_get event_empty_id ''file_id'' = PStr ''''"
  by (simp add: event_empty_id_def dict_get_def)

text \<open>
  C6, as the code has it. The code tests \<^verbatim>\<open>if file_id:\<close>, so what decides is whether
  the file id is truthy, not whether the event has the key. On an event that passes
  the input check: with a truthy file id no insert is ever made, and a run that reaches
  the metadata step makes one keyed update (two with the retry), each with
  \<^verbatim>\<open>Key = {"file_id": file_id}\<close>; with an absent or falsy file id (\<^verbatim>\<open>None\<close>, the
  empty string) no update is ever made, and a run that reaches the metadata step makes
  exactly one insert, whose item has \<^verbatim>\<open>file_id = basename(key)\<close> and
  \<^verbatim>\<open>s3_key = key\<close>. A run that does not reach the metadata step does not call the
  table.
\<close>

theorem update_or_insert:
  assumes "accepted event key"
  shows
  "(truthy (dict_get event ''file_id'') \<longrightarrow>
      filter is_put_item (snd (handler cfg env event)) = [])
   \<and> (\<not> truthy (dict_get event ''file_id'') \<longrightarrow>
      filter is_update_item (snd (handler cfg env event)) = [])
   \<and> (truthy (dict_get event ''file_id'')
      \<and> reaches_persist cfg env (dict_get event ''bucket'') key tmp_name \<longrightarrow>
      (filter is_store_call (snd (handler cfg env event))
         = [Call_update_item (run_update cfg env (dict_get event ''file_id'') key tmp_name)]
       \<or> filter is_store_call (snd (handler cfg env event))
         = [Call_update_item (run_update cfg env (dict_get event ''file_id'') key tmp_name),
            Call_update_item (run_update cfg env (dict_get event ''file_id'') key tmp_name)])
      \<and> upd_Key (run_update cfg env (dict_get event ''file_id'') key tmp_name)
        = [(''file_id'', dict_get event ''file_id'')])
   \<and> (\<not> truthy (dict_get event ''file_id'')
      \<and> reaches_persist cfg env (dict_get event ''bucket'') key tmp_name \<longrightarrow>
      filter is_store_call (snd (handler cfg env event))
        = [Call_put_item (run_insert cfg env key tmp_name)]
      \<and> at_path (run_insert cfg env key tmp_name) [Val (PStr ''file_id'')]
        = Some (PStr (basename key))
      \<and> at_path (run_insert cfg env key tmp_name) [Val (PStr ''s3_key'')] = Some (PStr key))
   \<and> ((\<forall>name. \<not> reaches_persist cfg env (dict_get event ''bucket'') key name) \<longrightarrow>
      filter is_store_call (snd (handler cfg env event)) = [])"
proof (intro conjI impI)
  assume "\<forall>name. \<not> reaches_persist cfg env (dict_get event ''bucket'') key name"
  then show "filter is_store_call (snd (handler cfg env event)) = []"
    using handler_log_cases [OF assms, of cfg env] by blast
next
  assume "truthy (dict_get event ''file_id'')"
  then show "filter is_put_item (snd (handler cfg env event)) = []"
    using handler_kind_of_store_calls [OF assms] by blast
next
  assume "\<not> truthy (dict_get event ''file_id'')"
  then show "filter is_update_item (snd (handler cfg env event)) = []"
    using handler_kind_of_store_calls [OF assms] by blast
next
  assume a: "truthy (dict_get event ''file_id'')
             \<and> reaches_persist cfg env (dict_get event ''bucket'') key tmp_name"
  then have "filter is_store_call (snd (handler cfg env event))
             = snd (run_persist cfg env (dict_get event ''file_id'') key tmp_name)"
    using handler_store_calls_at_persist [OF assms] by blast
  with a show "filter is_store_call (snd (handler cfg env event))
         = [Call_update_item (run_update cfg env (dict_get event ''file_id'') key tmp_name)]
       \<or> filter is_store_call (snd (handler cfg env event))
         = [Call_update_item (run_update cfg env (dict_get event ''file_id'') key tmp_name),
            Call_update_item (run_update cfg env (dict_get event ''file_id'') key tmp_name)]"
    using persist_update_log [of "dict_get event ''file_id''" env key]
    by (simp add: run_persist_def run_update_def)
  show "upd_Key (run_update cfg env (dict_get event ''file_id'') key tmp_name)
        = [(''file_id'', dict_get event ''file_id'')]"
    by (simp add: run_update_def update_req_def)
next
  assume a: "\<not> truthy (dict_get event ''file_id'')
             \<and> reaches_persist cfg env (dict_get event ''bucket'') key tmp_name"
  then have "filter is_store_call (snd (handler cfg env event))
             = snd (run_persist cfg env (dict_get event ''file_id'') key tmp_name)"
    using handler_store_calls_at_persist [OF assms] by blast
  with a show "filter is_store_call (snd (handler cfg env event))
        = [Call_put_item (run_insert cfg env key tmp_name)]"
    by (simp add: run_persist_def run_insert_def persist_insert)
  show "at_path (run_insert cfg env key tmp_name) [Val (PStr ''file_id'')]
        = Some (PStr (basename key))"
    by (simp add: run_insert_def insert_item_def)
  show "at_path (run_insert cfg env key tmp_name) [Val (PStr ''s3_key'')] = Some (PStr key)"
    by (simp add: run_insert_def insert_item_def)
qed

theorem update_or_insert_witness:
  "filter is_store_call (snd (handler default_config ok_env event_with_id))
     = [Call_update_item sample_pipeline_update]
   \<and> filter is_put_item (snd (handler default_config ok_env event_with_id)) = []
   \<and> upd_Key sample_pipeline_update = [(''file_id'', PStr ''fid-1'')]
   \<and> filter is_store_call (snd (handler default_config ok_env event_no_id))
     = [Call_put_item sample_pipeline_insert]
   \<and> filter is_update_item (snd (handler default_config ok_env event_no_id)) = []
   \<and> at_path sample_pipeline_insert [Val (PStr ''file_id'')] = Some (PStr ''foo.mp3'')
   \<and> at_path sample_pipeline_insert [Val (PStr ''s3_key'')] = Some (PStr ''uploads/foo.mp3'')
   \<and> filter is_store_call (snd (handler default_config download_fails_env event_with_id)) = []"
proof -
  let ?k = "''uploads/abc.wav''" and ?n = "''/tmp/tmpq3x.wav''"
  let ?k' = "''uploads/foo.mp3''" and ?n' = "''/tmp/tmpq3x.mp3''"
  have "\<forall>name. \<not> reaches_persist default_config download_fails_env
                     (dict_get event_with_id ''bucket'') ?k name"
    by (simp add: reaches_persist_def download_fails_env_def)
  then have c6: "filter is_store_call
                   (snd (handler default_config download_fails_env event_with_id)) = []"
    using update_or_insert [OF accepted_with_id, of default_config download_fails_env] by blast
  have e: "ok_env = ok_env\<lparr>update_item := (\<lambda>attempt req. Inr Map.empty)\<rparr>"
    by (simp add: ok_env_def)
  note r = sample_run_with_id [OF e]
  have t: "truthy (dict_get event_with_id ''file_id'')"
    by (simp add: file_id_with_id)
  have f: "\<not> truthy (dict_get event_no_id ''file_id'')"
    by (simp add: file_id_no_id)
  note s = sample_run_foo [OF bucket_no_id]
  have ok: "update_item ok_env 0 sample_pipeline_update = Inr Map.empty"
    by (simp add: r(4))
  have "snd (run_persist default_config ok_env (dict_get event_with_id ''file_id'') ?k ?n)
        = [Call_update_item sample_pipeline_update]"
    using persist_update_ok [OF t, of ok_env] ok r(3)
    by (simp add: run_persist_def run_update_def)
  then have c1: "filter is_store_call (snd (handler default_config ok_env event_with_id))
                 = [Call_update_item sample_pipeline_update]"
    by (simp add: handler_store_calls_at_persist [OF accepted_with_id r(1)])
  have c2: "filter is_put_item (snd (handler default_config ok_env event_with_id)) = []"
    using update_or_insert [OF accepted_with_id, of default_config ok_env] t by blast
  have c3: "upd_Key sample_pipeline_update = [(''file_id'', PStr ''fid-1'')]"
    using update_or_insert [OF accepted_with_id, of default_config ok_env ?n] t r(1) r(3)
    by (simp add: file_id_with_id)
  have c4: "filter is_store_call (snd (handler default_config ok_env event_no_id))
              = [Call_put_item sample_pipeline_insert]
            \<and> at_path sample_pipeline_insert [Val (PStr ''file_id'')] = Some (PStr (basename ?k'))
            \<and> at_path sample_pipeline_insert [Val (PStr ''s3_key'')] = Some (PStr ?k')"
    using update_or_insert [OF accepted_no_id, of default_config ok_env ?n'] f s(1)
    by (simp add: s(2))
  have c5: "filter is_update_item (snd (handler default_config ok_env event_no_id)) = []"
    using update_or_insert [OF accepted_no_id, of default_config ok_env] f by blast
  from c1 c2 c3 c4 c5 c6 show ?thesis by (simp add: basename_foo)
qed

text \<open>
  C6 as stated fails for a file id that is present and empty: the event holds
  \<^verbatim>\<open>"file_id": ""\<close>, and the only call to the table is an insert.
\<close>

theorem empty_file_id_inserts_counterexample:
  "event_empty_id ''file_id'' = Some (PStr '''')
   \<and> filter is_store_call (snd (handler default_config ok_env event_empty_id))
     = [Call_put_item sample_pipeline_insert]"
proof -
  have f: "\<not> truthy (dict_get event_empty_id ''file_id'')"
    by (simp add: file_id_empty_id)
  note s = sample_run_foo [OF bucket_empty_id]
  have "snd (run_persist default_config ok_env (dict_get event_empty_id ''file_id'')
               ''uploads/foo.mp3'' ''/tmp/tmpq3x.mp3'')
        = [Call_put_item sample_pipeline_insert]"
    using persist_insert [OF f, of ok_env] s(2)
    by (simp add: run_persist_def run_insert_def)
  then have "filter is_store_call (snd (handler default_config ok_env event_empty_id))
             = [Call_put_item sample_pipeline_insert]"
    by (simp add: handler_store_calls_at_persist [OF accepted_empty_id s(1)])
  moreover have "event_empty_id ''file_id'' = Some (PStr [])"
    by (simp add: event_empty_id_def)
  ultimately show ?thesis by simp
qed

section \<open>The artifact\<close>

lemma error_not_success: "error_dict msg \<noteq> success_dict b k a"
  by (simp add: error_dict_def success_dict_def)

lemma success_dict_inject:
  "success_dict b k a = success_dict b' k' a' \<longleftrightarrow> b = b' \<and> k = k' \<and> a = a'"
  by (auto simp: success_dict_def)

lemma store_after_put_objects:
  "store_after env l st = store_after env (filter is_put_object l) st"
proof (induction l arbitrary: st)
  case Nil
  show ?case by simp
next
  case (Cons c l)
  show ?case
    using Cons.IH by (cases c) (simp_all add: store_after_def)
qed

lemma handler_success:
  assumes "fst (handler cfg env event) = Inr (success_dict b k a)"
  shows "\<exists>tmp_name. accepted event k \<and> dict_get event ''bucket'' = b
           \<and> reaches_persist cfg env b k tmp_name \<and> a = run_analysis cfg env k tmp_name"
proof -
  have "\<not> (\<not> truthy (dict_get event ''bucket'') \<or> \<not> truthy (dict_get event ''key''))"
  proof
    assume "\<not> truthy (dict_get event ''bucket'') \<or> \<not> truthy (dict_get event ''key'')"
    then have "handler cfg env event = (Inr (error_dict ''Missing bucket or key''), [])"
      by (auto simp: handler_def)
    with assms show False
      by (simp add: error_not_success)
  qed
  then have tb: "truthy (dict_get event ''bucket'')" and tk: "truthy (dict_get event ''key'')"
    by simp_all
  have "\<exists>key. dict_get event ''key'' = PStr key"
  proof (rule ccontr)
    assume "\<not> (\<exists>key. dict_get event ''key'' = PStr key)"
    then have "\<forall>key. dict_get event ''key'' \<noteq> PStr key" by blast
    from handler_not_str [OF tb tk this] assms show False
      by (simp add: error_not_success)
  qed
  then obtain key where key: "dict_get event ''key'' = PStr key" by blast
  with tb tk have acc: "accepted event key"
    by (simp add: accepted_def)
  show ?thesis
  proof (cases "NamedTemporaryFile env (snd (splitext key))")
    case (Inl e)
    with acc handler_tmp_fails [of event key env e cfg] assms show ?thesis
      by (simp add: accepted_def error_not_success)
  next
    case (Inr tmp_name)
    show ?thesis
    proof (cases "download_file env (dict_get event ''bucket'') key tmp_name")
      case (Some e)
      with acc Inr handler_download_fails [of event key env tmp_name e cfg] assms show ?thesis
        by (simp add: error_not_success)
    next
      case None
      show ?thesis
      proof (cases "put_object env (run_artifact cfg env (dict_get event ''bucket'') key tmp_name)")
        case (Some e)
        with acc Inr None handler_put_object_fails [of event key env tmp_name cfg e] assms
        show ?thesis
          by (simp add: error_not_success)
      next
        case None': None
        with Inr None have r: "reaches_persist cfg env (dict_get event ''bucket'') key tmp_name"
          by (simp add: reaches_persist_def)
        obtain rp lp where
          rp: "run_persist cfg env (dict_get event ''file_id'') key tmp_name = (rp, lp)"
          by (cases "run_persist cfg env (dict_get event ''file_id'') key tmp_name")
        from handler_at_persist [OF acc r rp] assms
        have "success_dict (dict_get event ''bucket'') key (run_analysis cfg env key tmp_name)
              = success_dict b k a"
          by (cases "tmp_close env tmp_name"; cases rp) (simp_all add: error_not_success)
        then have "dict_get event ''bucket'' = b \<and> key = k \<and> a = run_analysis cfg env key tmp_name"
          by (auto simp: success_dict_inject)
        with acc r show ?thesis by blast
      qed
    qed
  qed
qed

text \<open>
  C8. On every run that returns the success dictionary, the log holds exactly one
  \<^verbatim>\<open>put_object\<close>: to the event's bucket, at the key
  \<^verbatim>\<open>OUT_PREFIX + basename(key) + ".json"\<close>, with content type
  \<^verbatim>\<open>application/json\<close> and with the JSON text of the analysis dictionary as its body.
  That dictionary is the one returned under \<^verbatim>\<open>analysis\<close>, and it has exactly the
  eight fields of \<open>analysis_dict\<close>. Whatever the object store held before the run, after
  it the store holds this body and content type at that key, and is unchanged at every
  other key.
\<close>

theorem artifact_written_once:
  assumes "fst (handler cfg env event) = Inr (success_dict b k a)"
  shows "dict_get event ''bucket'' = b \<and> dict_get event ''key'' = PStr k
         \<and> (\<exists>tmp_name. reaches_persist cfg env b k tmp_name \<and> a = run_analysis cfg env k tmp_name)
         \<and> (\<exists>duration tempo beats method download_s duration_s tempo_s.
               a = analysis_dict cfg duration tempo beats method download_s duration_s tempo_s)
         \<and> filter is_put_object (snd (handler cfg env event))
           = [Call_put_object
                \<lparr>Bucket = b, Key = OUT_PREFIX cfg @ basename k @ ''.json'',
                 Body = json_dumps env a, ContentType = ''application/json''\<rparr>]
         \<and> (\<forall>st. store_after env (snd (handler cfg env event)) st
                  = st((b, OUT_PREFIX cfg @ basename k @ ''.json'')
                       \<mapsto> (json_dumps env a, ''application/json'')))"
proof -
  from handler_success [OF assms] obtain tmp_name where
    acc: "accepted event k" and b: "dict_get event ''bucket'' = b"
    and r: "reaches_persist cfg env b k tmp_name" and a: "a = run_analysis cfg env k tmp_name"
    by blast
  have r': "reaches_persist cfg env (dict_get event ''bucket'') k tmp_name"
    using r b by simp
  have art: "run_artifact cfg env b k tmp_name
             = \<lparr>Bucket = b, Key = OUT_PREFIX cfg @ basename k @ ''.json'',
                Body = json_dumps env a, ContentType = ''application/json''\<rparr>"
    by (simp add: run_artifact_def artifact_req_def a)
  have puts: "filter is_put_object (snd (handler cfg env event))
              = [Call_put_object (run_artifact cfg env b k tmp_name)]"
    using handler_log_at_persist [OF acc r']
    by (simp add: b run_prefix_filters run_persist_def persist_store_calls)
  have ok: "put_object env (run_artifact cfg env b k tmp_name) = None"
    using r by (simp add: reaches_persist_def)
  have fields: "\<exists>duration tempo beats method download_s duration_s tempo_s.
               a = analysis_dict cfg duration tempo beats method download_s duration_s tempo_s"
    unfolding a run_analysis_def by (simp split: prod.splits) blast
  have store: "store_after env (snd (handler cfg env event)) st
               = st((b, OUT_PREFIX cfg @ basename k @ ''.json'')
                    \<mapsto> (json_dumps env a, ''application/json''))" for st
    using ok
    by (subst store_after_put_objects) (simp add: puts store_after_def, simp add: art)
  from acc b r a fields puts store show ?thesis
    by (auto simp: accepted_def art)
qed


theorem artifact_written_once_witness:
  "fst (handler default_config ok_env event_with_id)
     = Inr (success_dict (PStr ''test-bucket'') ''uploads/abc.wav''
              (analysis_dict default_config (7 / 2) 120 3 ''soundfile.info'' 1 1 (1 / 2)))
   \<and> filter is_put_object (snd (handler default_config ok_env event_with_id))
     = [Call_put_object
          \<lparr>Bucket = PStr ''test-bucket'', Key = ''analysis/abc.wav.json'',
           Body = ''{...}'', ContentType = ''application/json''\<rparr>]"
proof -
  let ?k = "''uploads/abc.wav''" and ?n = "''/tmp/tmpq3x.wav''"
  let ?a = "analysis_dict default_config (7 / 2) 120 3 ''soundfile.info'' 1 1 (1 / 2)"
  have e: "ok_env = ok_env\<lparr>update_item := (\<lambda>attempt req. Inr Map.empty)\<rparr>"
    by (simp add: ok_env_def)
  note r = sample_run_with_id [OF e]
  have t: "truthy (dict_get event_with_id ''file_id'')"
    by (simp add: file_id_with_id)
  have ok: "update_item ok_env 0 sample_pipeline_update = Inr Map.empty"
    by (simp add: r(4))
  have p: "run_persist default_config ok_env (dict_get event_with_id ''file_id'') ?k ?n
           = (Inr (), [Call_update_item sample_pipeline_update])"
    using persist_update_ok [OF t, of ok_env] ok r(3)
    by (simp add: run_persist_def run_update_def)
  have h: "fst (handler default_config ok_env event_with_id)
           = Inr (success_dict (PStr ''test-bucket'') ?k ?a)"
    using handler_at_persist [OF accepted_with_id r(1) p]
    by (simp add: r(2) r(5) bucket_with_id)
  have "filter is_put_object (snd (handler default_config ok_env event_with_id))
        = [Call_put_object
             \<lparr>Bucket = PStr ''test-bucket'',
              Key = OUT_PREFIX default_config @ basename ?k @ ''.json'',
              Body = json_dumps ok_env ?a, ContentType = ''application/json''\<rparr>]"
    using artifact_written_once [OF h] by blast
  then have "filter is_put_object (snd (handler default_config ok_env event_with_id))
     = [Call_put_object
          \<lparr>Bucket = PStr ''test-bucket'', Key = ''analysis/abc.wav.json'',
           Body = ''{...}'', ContentType = ''application/json''\<rparr>]"
    by (simp add: basename_abc) (simp add: default_config_def ok_env_def)
  with h show ?thesis by simp
qed

section \<open>The \<^verbatim>\<open>analyzed_at\<close> attribute\<close>

lemma py_replace_offset:
  "CHR ''+'' \<notin> set s \<Longrightarrow> py_replace (s @ ''+00:00'') ''+00:00'' ''Z'' = s @ ''Z''"
  by (induction s) auto

lemma digit_char_digit: "digit_char d \<in> set ''0123456789''"
  unfolding digit_char_def by (rule nth_mem) simp

lemma isoformat_naive_chars: "set (isoformat_naive now) \<subseteq> set ''0123456789-T:.''"
proof -
  have d: "digit_char d \<in> set ''0123456789-T:.''" for d
    using digit_char_digit [of d] by auto
  show ?thesis
    unfolding isoformat_naive_def digits2_def digits4_def digits6_def
    using d by (cases "microsecond now = 0") auto
qed

lemma analyzed_at_value_eq: "analyzed_at_value now = isoformat_naive now @ ''Z''"
proof -
  have "CHR ''+'' \<notin> set (isoformat_naive now)"
    using isoformat_naive_chars [of now] by auto
  then show ?thesis
    by (simp add: analyzed_at_value_def isoformat_def py_replace_offset)
qed

lemma persist_calls:
  "Call_put_item item \<in> set (snd (persist env file_id key d t)) \<Longrightarrow>
     item = insert_item env key d t"
  "Call_update_item req \<in> set (snd (persist env file_id key d t)) \<Longrightarrow>
     req = update_req env file_id d t"
  using persist_update_log [of file_id env key d t]
  by (cases "truthy file_id"; auto simp: persist_insert)+

lemma not_in_filter_empty: "filter P l = [] \<Longrightarrow> x \<in> set l \<Longrightarrow> \<not> P x"
  by (auto simp: filter_empty_conv)

lemma handler_log_empty_or_accepted:
  "snd (handler cfg env event) = [] \<or> (\<exists>key. accepted event key)"
proof (cases "\<not> truthy (dict_get event ''bucket'') \<or> \<not> truthy (dict_get event ''key'')")
  case True
  then show ?thesis by (auto simp: handler_def)
next
  case False
  then have tb: "truthy (dict_get event ''bucket'')" and tk: "truthy (dict_get event ''key'')"
    by simp_all
  show ?thesis
  proof (cases "\<exists>key. dict_get event ''key'' = PStr key")
    case True
    with tb tk show ?thesis by (auto simp: accepted_def)
  next
    case False
    then have "\<forall>key. dict_get event ''key'' \<noteq> PStr key" by blast
    from handler_not_str [OF tb tk this] show ?thesis by simp
  qed
qed

lemma handler_store_call_cases:
  assumes "c \<in> set (snd (handler cfg env event))" and "is_store_call c"
  shows "\<exists>key tmp_name. c \<in> set (snd (run_persist cfg env (dict_get event ''file_id'') key tmp_name))"
proof -
  from assms(1) handler_log_empty_or_accepted [of cfg env event]
  obtain key where acc: "accepted event key" by auto
  have "filter is_store_call (snd (handler cfg env event)) \<noteq> []"
    using mem_filter_cases [of c "snd (handler cfg env event)" is_store_call] assms by blast
  with handler_log_cases [OF acc, of cfg env]
  obtain tmp_name where r: "reaches_persist cfg env (dict_get event ''bucket'') key tmp_name"
    by blast
  from assms have "c \<in> set (filter is_store_call (snd (handler cfg env event)))"
    by simp
  then have "c \<in> set (snd (run_persist cfg env (dict_get event ''file_id'') key tmp_name))"
    by (simp only: handler_store_calls_at_persist [OF acc r])
  then show ?thesis by blast
qed

lemma handler_put_item:
  assumes "Call_put_item item \<in> set (snd (handler cfg env event))"
  shows "\<exists>key d t. item = insert_item env key d t"
  using handler_store_call_cases [OF assms] persist_calls(1)
  by (fastforce simp: is_store_call_def run_persist_def)

lemma handler_update_item:
  assumes "Call_update_item req \<in> set (snd (handler cfg env event))"
  shows "\<exists>d t. req = update_req env (dict_get event ''file_id'') d t"
  using handler_store_call_cases [OF assms] persist_calls(2)
  by (fastforce simp: is_store_call_def run_persist_def)


lemma mem_of_filter_single: "filter P l = [x] \<Longrightarrow> x \<in> set l"
proof -
  assume eq: "filter P l = [x]"
  have "x \<in> set (filter P l)" unfolding eq by simp
  then show ?thesis by simp
qed

lemma sample_store_calls:
  "filter is_store_call (snd (handler default_config ok_env event_with_id))
   = [Call_update_item sample_pipeline_update]"
  "filter is_store_call (snd (handler default_config ok_env event_no_id))
   = [Call_put_item sample_pipeline_insert]"
proof -
  have e: "ok_env = ok_env\<lparr>update_item := (\<lambda>attempt req. Inr Map.empty)\<rparr>"
    by (simp add: ok_env_def)
  note r = sample_run_with_id [OF e]
  have t: "truthy (dict_get event_with_id ''file_id'')"
    by (simp add: file_id_with_id)
  have ok: "update_item ok_env 0 sample_pipeline_update = Inr Map.empty"
    by (simp add: r(4))
  have "snd (run_persist default_config ok_env (dict_get event_with_id ''file_id'')
               ''uploads/abc.wav'' ''/tmp/tmpq3x.wav'')
        = [Call_update_item sample_pipeline_update]"
    using persist_update_ok [OF t, of ok_env] ok r(3)
    by (simp add: run_persist_def run_update_def)
  then show "filter is_store_call (snd (handler default_config ok_env event_with_id))
             = [Call_update_item sample_pipeline_update]"
    by (simp add: handler_store_calls_at_persist [OF accepted_with_id r(1)])
  have f: "\<not> truthy (dict_get event_no_id ''file_id'')"
    by (simp add: file_id_no_id)
  note s = sample_run_foo [OF bucket_no_id]
  have "snd (run_persist default_config ok_env (dict_get event_no_id ''file_id'')
               ''uploads/foo.mp3'' ''/tmp/tmpq3x.mp3'')
        = [Call_put_item sample_pipeline_insert]"
    using persist_insert [OF f, of ok_env] s(2)
    by (simp add: run_persist_def run_insert_def)
  then show "filter is_store_call (snd (handler default_config ok_env event_no_id))
             = [Call_put_item sample_pipeline_insert]"
    by (simp add: handler_store_calls_at_persist [OF accepted_no_id s(1)])
qed

text \<open>
  C9, as the code has it. The item \<^verbatim>\<open>save_metadata\<close> puts has no \<^verbatim>\<open>analyzed_at\<close>,
  and neither has the item of the pipeline's insert. Every update the pipeline sends
  sets \<^verbatim>\<open>analyzed_at\<close>, to the UTC time in ISO-8601 form followed by the letter
  \<^verbatim>\<open>Z\<close>: the text before the \<^verbatim>\<open>Z\<close> is made of digits and of \<^verbatim>\<open>-\<close>, \<^verbatim>\<open>T\<close>,
  \<^verbatim>\<open>:\<close> and \<^verbatim>\<open>.\<close> only, so it carries no numeric offset. \<^verbatim>\<open>update_metadata\<close> sets
  the attributes its caller names, whichever they are.
\<close>

theorem analyzed_at_written_by_pipeline_update:
  "at_path (new_item env filename s3_key duration tempo file_id) [Val (PStr ''analyzed_at'')] = None
   \<and> (Call_put_item item \<in> set (snd (save_metadata env filename s3_key duration tempo file_id))
      \<longrightarrow> at_path item [Val (PStr ''analyzed_at'')] = None)
   \<and> (Call_put_item item \<in> set (snd (handler cfg env event))
      \<longrightarrow> at_path item [Val (PStr ''analyzed_at'')] = None)
   \<and> (Call_update_item req \<in> set (snd (handler cfg env event)) \<longrightarrow>
        UpdateExpression req = ''SET #duration = :d, #tempo = :t, #analyzed_at = :a''
        \<and> map_of (ExpressionAttributeNames req) ''#analyzed_at'' = Some ''analyzed_at''
        \<and> map_of (ExpressionAttributeValues req) '':a''
          = Some (PStr (isoformat_naive (utc_now env) @ ''Z'')))
   \<and> analyzed_at_value now = isoformat_naive now @ ''Z''
   \<and> set (isoformat_naive now) \<subseteq> set ''0123456789-T:.''
   \<and> (Call_update_item req \<in> set (snd (update_metadata env fid kw)) \<longrightarrow>
        ExpressionAttributeNames req = map (\<lambda>kv. (''#'' @ fst kv, fst kv)) kw)"
proof (intro conjI impI)
  show n: "at_path (new_item env filename s3_key duration tempo file_id)
             [Val (PStr ''analyzed_at'')] = None"
    by (simp add: new_item_def Let_def)
  assume "Call_put_item item \<in> set (snd (save_metadata env filename s3_key duration tempo file_id))"
  then have "item = clean_ddb (float_str env)
                      (new_item env filename s3_key duration tempo file_id)"
    by (auto simp: save_metadata_def Let_def simp del: clean_ddb.simps
          split: option.splits if_splits)
  then show "at_path item [Val (PStr ''analyzed_at'')] = None"
    using n by (simp only: at_path_clean_ddb) simp
next
  assume "Call_put_item item \<in> set (snd (handler cfg env event))"
  then obtain key d t where "item = insert_item env key d t"
    using handler_put_item by blast
  then show "at_path item [Val (PStr ''analyzed_at'')] = None"
    by (simp add: insert_item_def)
next
  assume "Call_update_item req \<in> set (snd (handler cfg env event))"
  then obtain d t where r: "req = update_req env (dict_get event ''file_id'') d t"
    using handler_update_item by blast
  show "UpdateExpression req = ''SET #duration = :d, #tempo = :t, #analyzed_at = :a''"
    by (simp add: r update_req_def)
  show "map_of (ExpressionAttributeNames req) ''#analyzed_at'' = Some ''analyzed_at''"
    by (simp add: r update_req_def)
  show "map_of (ExpressionAttributeValues req) '':a''
        = Some (PStr (isoformat_naive (utc_now env) @ ''Z''))"
    by (simp add: r update_req_def analyzed_at_value_eq)
next
  show "analyzed_at_value now = isoformat_naive now @ ''Z''"
    by (rule analyzed_at_value_eq)
next
  show "set (isoformat_naive now) \<subseteq> set ''0123456789-T:.''"
    by (rule isoformat_naive_chars)
next
  assume "Call_update_item req \<in> set (snd (update_metadata env fid kw))"
  then show "ExpressionAttributeNames req = map (\<lambda>kv. (''#'' @ fst kv, fst kv)) kw"
    by (auto simp: update_metadata_def Let_def comp_def simp del: clean_ddb.simps
          split: sum.splits if_splits)
qed

theorem analyzed_at_written_by_pipeline_update_witness:
  "Call_put_item sample_item
     \<in> set (snd (save_metadata ok_env ''abc.wav'' ''uploads/fid-1.wav'' (PFloat (7 / 2)) PNone
                   (Some ''fid-1'')))
   \<and> at_path sample_item [Val (PStr ''analyzed_at'')] = None
   \<and> Call_put_item sample_pipeline_insert \<in> set (snd (handler default_config ok_env event_no_id))
   \<and> at_path sample_pipeline_insert [Val (PStr ''analyzed_at'')] = None
   \<and> Call_update_item sample_pipeline_update
     \<in> set (snd (handler default_config ok_env event_with_id))
   \<and> map_of (ExpressionAttributeValues sample_pipeline_update) '':a''
     = Some (PStr ''2025-03-09T14:05:07.120034Z'')
   \<and> Call_update_item sample_update
     \<in> set (snd (update_metadata ok_env ''fid-1''
                   [(''tempo'', PFloat 120), (''duration'', PFloat (7 / 2))]))
   \<and> ExpressionAttributeNames sample_update = [(''#tempo'', ''tempo''), (''#duration'', ''duration'')]"
proof -
  note th = analyzed_at_written_by_pipeline_update
  have h1: "Call_put_item sample_item
            \<in> set (snd (save_metadata ok_env ''abc.wav'' ''uploads/fid-1.wav'' (PFloat (7 / 2)) PNone
                          (Some ''fid-1'')))"
    by (simp add: save_metadata_def new_item_def ok_env_def sample_item_def decimal_or_keep_def
          sample_float_str_def Let_def)
  have c1: "at_path sample_item [Val (PStr ''analyzed_at'')] = None"
    using th [where item = sample_item and env = ok_env] h1 by blast
  have h2: "Call_put_item sample_pipeline_insert
                 \<in> set (snd (handler default_config ok_env event_no_id))"
    using sample_store_calls(2) by (rule mem_of_filter_single)
  have c2: "at_path sample_pipeline_insert [Val (PStr ''analyzed_at'')] = None"
    using th [where item = sample_pipeline_insert and env = ok_env and cfg = default_config] h2
    by blast
  have h3: "Call_update_item sample_pipeline_update
                 \<in> set (snd (handler default_config ok_env event_with_id))"
    using sample_store_calls(1) by (rule mem_of_filter_single)
  have c3: "map_of (ExpressionAttributeValues sample_pipeline_update) '':a''
            = Some (PStr (isoformat_naive (utc_now ok_env) @ ''Z''))"
    using th [where req = sample_pipeline_update and env = ok_env and cfg = default_config] h3
    by blast
  have iso: "isoformat_naive (utc_now ok_env) @ ''Z'' = ''2025-03-09T14:05:07.120034Z''"
    using th [where now = "utc_now ok_env"] sample_analyzed_at by simp
  have h4: "Call_update_item sample_update
            \<in> set (snd (update_metadata ok_env ''fid-1''
                          [(''tempo'', PFloat 120), (''duration'', PFloat (7 / 2))]))"
    by (simp add: update_metadata_def ok_env_def sample_update_def sample_float_str_def Let_def)
  have c4: "ExpressionAttributeNames sample_update
            = map (\<lambda>kv. (''#'' @ fst kv, fst kv))
                [(''tempo'', PFloat 120), (''duration'', PFloat (7 / 2))]"
    using th [where req = sample_update and env = ok_env] h4 by blast
  from h1 c1 h2 c2 h3 c3 iso h4 c4 show ?thesis by simp
qed

text \<open>
  C9 as stated fails: the pipeline is not the only writer of \<^verbatim>\<open>analyzed_at\<close>. A call
  of \<^verbatim>\<open>update_metadata\<close> that names the attribute (the \<^verbatim>\<open>PATCH /update\<close> route
  passes the request body on) sets it, to any value.
\<close>

theorem update_metadata_sets_analyzed_at_counterexample:
  "update_metadata ok_env ''fid-1'' [(''analyzed_at'', PStr ''yesterday'')]
   = (Inr (PDict []),
      [Call_update_item
         \<lparr>upd_Key = [(''file_id'', PStr ''fid-1'')],
          UpdateExpression = ''SET #analyzed_at = :analyzed_at'',
          ExpressionAttributeNames = [(''#analyzed_at'', ''analyzed_at'')],
          ExpressionAttributeValues = [('':analyzed_at'', PStr ''yesterday'')],
          ReturnValues = Some ''UPDATED_NEW''\<rparr>])"
  by (simp add: update_metadata_def ok_env_def Let_def)

end
